theory Spec2Isabelle
  imports Complex_Main "HOL-Library.Multiset"
begin

section \<open>CT-NeRF: ray geometry, sampling distances and volume assembly\<close>

text \<open>
  The tensors of \<^verbatim>\<open>src/ctnerf/rays.py\<close> and
  \<^verbatim>\<open>src/ctnerf/image_creation/ct_creation.py\<close> are embedded as lists: a tensor of
  shape \<open>(B, N)\<close> is a list of \<open>B\<close> rows, a tensor of shape \<open>(B, 2)\<close> or \<open>(B, 3)\<close> a
  list of pairs or triples. Scalars are real numbers: the rounding of the float32
  arithmetic is outside this embedding. Where the code produces an infinity or
  not-a-number from finite inputs, the value or tensor concerned is \<open>None\<close>; in the two
  places whose result has no room for it (\<open>log_scaled\<close>, \<open>np_div\<close>) the run is marked
  \<open>NonFinite\<close>. The other values of the type \<open>error\<close> are the errors raised by the Python
  code.
\<close>

datatype error = ShapeError | UnboundLocalError | SplitSizeError | NonFinite | IndexError
  | RuntimeError | AttributeError

type_synonym vec3 = "real \<times> real \<times> real"

subsection \<open>\<^verbatim>\<open>get_sampling_distances\<close> (rays.py, lines 244-270)\<close>

text \<open>
  \<^verbatim>\<open>torch.diff\<close> along one row: \<open>out[i] = x[i+1] - x[i]\<close>, one element shorter than
  the row.
\<close>

fun diff :: "real list \<Rightarrow> real list" where
  "diff (x # y # zs) = (y - x) # diff (y # zs)"
| "diff [x] = []"
| "diff [] = []"

text \<open>
  \<^verbatim>\<open>torch.ones([B, 1]) * ray_bounds[:, 1:]\<close>, respectively \<^verbatim>\<open>torch.ones([B, 1]) * 2\<close>:
  the column of far bounds, one per ray. The product broadcasts a single row of bounds
  over the batch; \<^verbatim>\<open>torch.diff\<close> refuses an appended column whose batch size is not
  that of \<^verbatim>\<open>t_samples\<close>.
\<close>

definition ray_limit :: "nat \<Rightarrow> (real \<times> real) list option \<Rightarrow> error + real list" where
  "ray_limit B ray_bounds =
     (case ray_bounds of
        Some rb \<Rightarrow>
          if length rb = B then Inr (map (\<lambda>bnd. 1 * snd bnd) rb)
          else if length rb = 1 then Inr (replicate B (1 * snd (hd rb)))
          else Inl ShapeError
      | None \<Rightarrow> Inr (replicate B (1 * 2)))"

definition get_sampling_distances ::
    "real list list \<Rightarrow> (real \<times> real) list option \<Rightarrow> error + real list list" where
  "get_sampling_distances t_samples ray_bounds =
     (case ray_limit (length t_samples) ray_bounds of
        Inl e \<Rightarrow> Inl e
      | Inr limits \<Rightarrow> Inr (map2 (\<lambda>row far. diff (row @ [far])) t_samples limits))"

subsection \<open>Sample points (rays.py, lines 153-155 and 203-205)\<close>

text \<open>
  Broadcasting of the batch dimension as \<^verbatim>\<open>torch\<close> does it: two sizes agree when they
  are equal or one of them is 1; a dimension of size 1 is repeated.
\<close>

definition bshape :: "nat \<Rightarrow> nat \<Rightarrow> error + nat" where
  "bshape m n =
     (if m = n then Inr m else if m = 1 then Inr n else if n = 1 then Inr m
      else Inl ShapeError)"

definition expand :: "nat \<Rightarrow> 'a list \<Rightarrow> 'a list" where
  "expand B xs = (if length xs = B then xs else replicate B (hd xs))"

fun vadd :: "vec3 \<Rightarrow> vec3 \<Rightarrow> vec3" where
  "vadd (a, b, c) (d, e, f) = (a + d, b + e, c + f)"

fun smul :: "real \<Rightarrow> vec3 \<Rightarrow> vec3" where
  "smul t (a, b, c) = (t * a, t * b, t * c)"

text \<open>The points \<open>start + t * heading\<close> of one ray.\<close>

definition ray_points :: "vec3 \<Rightarrow> vec3 \<Rightarrow> real list \<Rightarrow> vec3 list" where
  "ray_points s h row = map (\<lambda>t. vadd s (smul t h)) row"

text \<open>
  \<^verbatim>\<open>start_pos.unsqueeze(1) + t_samples.unsqueeze(2) * heading_vector.unsqueeze(1)\<close>,
  reshaped to \<open>(-1, 3)\<close>: the points of all rays, ray after ray.
\<close>

definition sample_points :: "vec3 list \<Rightarrow> vec3 list \<Rightarrow> real list list \<Rightarrow> error + vec3 list" where
  "sample_points start_pos heading_vector t_samples =
     (case bshape (length t_samples) (length heading_vector) of
        Inl e \<Rightarrow> Inl e
      | Inr B1 \<Rightarrow>
          (case bshape (length start_pos) B1 of
             Inl e \<Rightarrow> Inl e
           | Inr B \<Rightarrow>
               Inr (concat (map (\<lambda>(s, h, row). ray_points s h row)
                      (zip (expand B start_pos)
                        (zip (expand B heading_vector) (expand B t_samples)))))))"

subsection \<open>\<^verbatim>\<open>get_coarse_samples\<close> (rays.py, lines 112-157)\<close>

text \<open>
  The sampling function is injected by the caller: it receives the number of samples,
  the batch size, the plateau ratio and the ray bounds (the device is not modelled) and
  returns the tensor of \<open>t\<close> values.
\<close>

type_synonym coarse_strategy =
  "nat \<Rightarrow> nat \<Rightarrow> real option \<Rightarrow> (real \<times> real) list option \<Rightarrow> real list list"

definition get_coarse_samples ::
    "vec3 list \<Rightarrow> vec3 list \<Rightarrow> nat \<Rightarrow> nat \<Rightarrow> (real \<times> real) list option \<Rightarrow> real option \<Rightarrow>
     coarse_strategy \<Rightarrow> error + (real list list \<times> vec3 list \<times> real list list)" where
  "get_coarse_samples start_pos heading_vector n_samples batch_size ray_bounds plateau_ratio
       sampling_function =
     (let t_samples = sampling_function n_samples batch_size plateau_ratio ray_bounds in
      case get_sampling_distances t_samples ray_bounds of
        Inl e \<Rightarrow> Inl e
      | Inr sampling_distances \<Rightarrow>
          (case sample_points start_pos heading_vector t_samples of
             Inl e \<Rightarrow> Inl e
           | Inr sampled_points \<Rightarrow> Inr (t_samples, sampled_points, sampling_distances)))"

subsection \<open>\<^verbatim>\<open>get_fine_samples\<close> (rays.py, lines 160-207)\<close>

text \<open>
  \<^verbatim>\<open>ray_sampling.edge_focused_fine_sampling\<close> is not part of the sources at hand; it is
  a parameter: it receives the number of samples, the coarse values and the coarse
  distances and returns the tensor of fine \<open>t\<close> values.
\<close>

type_synonym fine_strategy = "nat \<Rightarrow> real list list \<Rightarrow> real list list \<Rightarrow> real list list"

text \<open>\<^verbatim>\<open>torch.cat([a, b], dim=1)\<close>: the batch sizes must be equal.\<close>

definition cat1 :: "real list list \<Rightarrow> real list list \<Rightarrow> error + real list list" where
  "cat1 a b = (if length a = length b then Inr (map2 (@) a b) else Inl ShapeError)"

text \<open>
  Lines 199-200: the coarse samples followed by the fine samples, each row then sorted
  ascending (\<^verbatim>\<open>torch.sort(t_samples, dim=1)[0]\<close>).
\<close>

definition merge_samples :: "real list list \<Rightarrow> real list list \<Rightarrow> error + real list list" where
  "merge_samples coarse_sample_ts fine_ts =
     (case cat1 coarse_sample_ts fine_ts of
        Inl e \<Rightarrow> Inl e
      | Inr t_samples \<Rightarrow> Inr (map sort t_samples))"

definition get_fine_samples ::
    "fine_strategy \<Rightarrow> vec3 list \<Rightarrow> vec3 list \<Rightarrow> (real \<times> real) list option \<Rightarrow> real list list \<Rightarrow>
     real list list \<Rightarrow> real list list \<Rightarrow> nat \<Rightarrow> error + (vec3 list \<times> real list list)" where
  "get_fine_samples edge_focused_fine_sampling start_pos heading_vector ray_bounds
       coarse_sample_ts coarse_sample_values coarse_sampling_distances n_samples =
     (let fine_ts = edge_focused_fine_sampling n_samples coarse_sample_values
                      coarse_sampling_distances in
      case merge_samples coarse_sample_ts fine_ts of
        Inl e \<Rightarrow> Inl e
      | Inr t_samples \<Rightarrow>
          (case get_sampling_distances t_samples ray_bounds of
             Inl e \<Rightarrow> Inl e
           | Inr sampling_distances \<Rightarrow>
               (case sample_points start_pos heading_vector t_samples of
                  Inl e \<Rightarrow> Inl e
                | Inr sampled_points \<Rightarrow> Inr (sampled_points, sampling_distances))))"

text \<open>The far bound of ray \<open>b\<close>: its second bound, or the default 2.\<close>

definition far_bound :: "(real \<times> real) list option \<Rightarrow> nat \<Rightarrow> real" where
  "far_bound ray_bounds b = (case ray_bounds of Some rb \<Rightarrow> snd (rb ! b) | None \<Rightarrow> 2)"

definition bounds_fit :: "(real \<times> real) list option \<Rightarrow> nat \<Rightarrow> bool" where
  "bounds_fit ray_bounds B = (case ray_bounds of Some rb \<Rightarrow> length rb = B | None \<Rightarrow> True)"

definition nonneg_distances :: "real list list \<Rightarrow> bool" where
  "nonneg_distances ds \<longleftrightarrow> (\<forall>row \<in> set ds. \<forall>d \<in> set row. 0 \<le> d)"

text \<open>
  The Distance Rule of the specification for one ray with samples \<open>t\<close>, far bound
  \<open>far\<close> and distances \<open>d\<close>.
\<close>

definition distance_rule :: "real list \<Rightarrow> real \<Rightarrow> real list \<Rightarrow> bool" where
  "distance_rule t far d \<longleftrightarrow>
     length d = length t \<and>
     (\<forall>i. Suc i < length t \<longrightarrow> d ! i = t ! Suc i - t ! i) \<and>
     (t \<noteq> [] \<longrightarrow> d ! (length t - 1) = far - t ! (length t - 1))"

subsection \<open>Ray geometry (rays.py, lines 44-109 and 210-241)\<close>

text \<open>
  \<^verbatim>\<open>get_rays\<close>, \<^verbatim>\<open>_get_ray_bounds\<close> and \<^verbatim>\<open>_create_z_rotation_matrix\<close>; the two
  private functions are named here without the leading underscore.
\<close>

text \<open>
  A \<open>3 \<times> 3\<close> matrix is the triple of its rows; \<^verbatim>\<open>torch.bmm\<close> applies the matrix of
  each ray to the column vector of that ray.
\<close>

type_synonym mat3 = "vec3 \<times> vec3 \<times> vec3"

fun mat_vec :: "mat3 \<Rightarrow> vec3 \<Rightarrow> vec3" where
  "mat_vec ((a, b, c), (d, e, f), (g, h, i)) (x, y, z) =
     (a * x + b * y + c * z, d * x + e * y + f * z, g * x + h * y + i * z)"

text \<open>
  Lines 225-239, for one angle: the rotation about the z axis and the heading vector
  \<open>-(cos, sin, 0)\<close>.
\<close>

definition rotation_z :: "real \<Rightarrow> mat3" where
  "rotation_z angle = ((cos angle, - sin angle, 0), (sin angle, cos angle, 0), (0, 0, 1))"

definition heading_z :: "real \<Rightarrow> vec3" where
  "heading_z angle = (- cos angle, - sin angle, - 0)"

definition create_z_rotation_matrix :: "real list \<Rightarrow> mat3 list \<times> vec3 list" where
  "create_z_rotation_matrix angles = (map rotation_z angles, map heading_z angles)"

text \<open>
  \<^verbatim>\<open>torch.sqrt\<close> of a negative number is not-a-number, here \<open>None\<close>;
  \<^verbatim>\<open>torch.nan_to_num(x, nan=0)\<close> replaces it.
\<close>

definition torch_sqrt :: "real \<Rightarrow> real option" where
  "torch_sqrt x = (if x < 0 then None else Some (sqrt x))"

definition nan_to_num :: "real option \<Rightarrow> real \<Rightarrow> real" where
  "nan_to_num v nan = (case v of None \<Rightarrow> nan | Some x \<Rightarrow> x)"

text \<open>
  Lines 97-108 for one ray: \<open>p_half = a * v_x + b * v_y\<close>, \<open>q = a\<^sup>2 + b\<^sup>2 - 1\<close> and the two
  bounds \<open>- p_half \<mp> sq_root\<close>.
\<close>

definition p_half :: "vec3 \<Rightarrow> vec3 \<Rightarrow> real" where
  "p_half s v = (case (s, v) of ((a, b, c), (v_x, v_y, v_z)) \<Rightarrow> a * v_x + b * v_y)"

definition q_term :: "vec3 \<Rightarrow> real" where
  "q_term s = (case s of (a, b, c) \<Rightarrow> a\<^sup>2 + b\<^sup>2 - 1)"

definition ray_bounds_of :: "vec3 \<Rightarrow> vec3 \<Rightarrow> real \<times> real" where
  "ray_bounds_of s v =
     (let sq_root = torch_sqrt ((p_half s v)\<^sup>2 - q_term s);
          sq_root = nan_to_num sq_root 0;
          t1 = - p_half s v - sq_root;
          t2 = - p_half s v + sq_root
      in (t1, t2))"

text \<open>
  The batch: the element-wise products broadcast the batch dimension, the two bounds are
  stacked per ray.
\<close>

definition get_ray_bounds :: "vec3 list \<Rightarrow> vec3 list \<Rightarrow> error + (real \<times> real) list" where
  "get_ray_bounds start_pos heading_vector =
     (case bshape (length start_pos) (length heading_vector) of
        Inl e \<Rightarrow> Inl e
      | Inr B \<Rightarrow> Inr (map2 ray_bounds_of (expand B start_pos) (expand B heading_vector)))"

text \<open>
  Line 67 for one pixel: \<open>2 * pixel_pos / (img_shape - 1) - 1\<close> in both coordinates.
\<close>

definition normalized_pos :: "real \<times> real \<Rightarrow> real \<times> real \<Rightarrow> real \<times> real" where
  "normalized_pos pix img_shape =
     (2 * fst pix / (fst img_shape - 1) - 1, 2 * snd pix / (snd img_shape - 1) - 1)"

text \<open>
  \<^verbatim>\<open>get_rays\<close>: the column \<open>x = 1\<close> is put in front of the normalised position, the
  result is rotated. \<^verbatim>\<open>torch.bmm\<close> raises when the numbers of angles and of pixels
  differ. With an image shape of 1 in a coordinate the float division by
  \<open>img_shape - 1 = 0\<close> gives an infinity or not-a-number for every pixel; the products with
  the zeros of the rotation matrix then make every entry of the start positions
  not-a-number or infinite, and so are both bounds of every ray (\<open>p_half\<close> is not-a-number).
  Nothing is raised: the start positions and the bounds are returned, here as \<open>None\<close>, and
  the heading vectors as usual.
\<close>

definition get_rays ::
    "(real \<times> real) list \<Rightarrow> real list \<Rightarrow> real \<times> real \<Rightarrow>
     error + (vec3 list option \<times> vec3 list \<times> (real \<times> real) list option)" where
  "get_rays pixel_pos angles img_shape =
     (let npos = map (\<lambda>pix. (1, normalized_pos pix img_shape)) pixel_pos;
          (rotation_matrix, heading_vector) = create_z_rotation_matrix angles
      in if length rotation_matrix \<noteq> length npos then Inl ShapeError
         else if pixel_pos \<noteq> [] \<and> (fst img_shape = 1 \<or> snd img_shape = 1)
         then Inr (None, heading_vector, None)
         else
           (let start_pos = map2 mat_vec rotation_matrix npos in
            case get_ray_bounds start_pos heading_vector of
              Inl e \<Rightarrow> Inl e
            | Inr ray_bounds \<Rightarrow> Inr (Some start_pos, heading_vector, Some ray_bounds)))"

text \<open>
  The squared distance \<open>x\<^sup>2 + y\<^sup>2\<close> of a point from the z axis, and the unit cylinder
  \<open>x\<^sup>2 + y\<^sup>2 = 1\<close>.
\<close>

definition radius_sq :: "vec3 \<Rightarrow> real" where
  "radius_sq p = (case p of (x, y, z) \<Rightarrow> x\<^sup>2 + y\<^sup>2)"

definition on_unit_cylinder :: "vec3 \<Rightarrow> bool" where
  "on_unit_cylinder p \<longleftrightarrow> radius_sq p = 1"

subsection \<open>\<^verbatim>\<open>beer_lambert_law\<close> (rays.py, lines 10-41)\<close>

text \<open>
  The first error of a list of results, or all the values.
\<close>

fun collect :: "(error + 'a) list \<Rightarrow> error + 'a list" where
  "collect [] = Inr []"
| "collect (r # rs) =
     (case r of
        Inl e \<Rightarrow> Inl e
      | Inr x \<Rightarrow> (case collect rs of Inl e \<Rightarrow> Inl e | Inr xs \<Rightarrow> Inr (x # xs)))"

text \<open>
  An element-wise operation on two rows, and the element-wise product of two tensors of
  two dimensions; both dimensions broadcast. All rows of a tensor have one length.
\<close>

definition broadcast_op ::
    "(real \<Rightarrow> real \<Rightarrow> real) \<Rightarrow> real list \<Rightarrow> real list \<Rightarrow> error + real list" where
  "broadcast_op f xs ys =
     (case bshape (length xs) (length ys) of
        Inl e \<Rightarrow> Inl e
      | Inr n \<Rightarrow> Inr (map2 f (expand n xs) (expand n ys)))"

definition tensor_mul :: "real list list \<Rightarrow> real list list \<Rightarrow> error + real list list" where
  "tensor_mul a b =
     (case bshape (length a) (length b) of
        Inl e \<Rightarrow> Inl e
      | Inr B \<Rightarrow> collect (map2 (broadcast_op (*)) (expand B a) (expand B b)))"

text \<open>
  \<^verbatim>\<open>torch.log(exp + k) / s\<close> for one ray. The logarithm of a number that is not positive
  and the division by \<open>s = 0\<close> give an infinity or not-a-number, which the real-valued
  result cannot hold: the outcome \<open>NonFinite\<close> marks such a run, where Python raises
  nothing.
\<close>

definition log_scaled :: "real \<Rightarrow> real \<Rightarrow> real \<Rightarrow> error + real" where
  "log_scaled s k e = (if e + k \<le> 0 \<or> s = 0 then Inl NonFinite else Inr (ln (e + k) / s))"

text \<open>
  The distances are scaled by \<open>slice_size_cm / 2\<close>, the products are summed over the
  samples of each ray (\<open>dim = 1\<close>), and the logarithmic form is returned only when both \<open>s\<close>
  and \<open>k\<close> are given.
\<close>

definition beer_lambert_law ::
    "real list list \<Rightarrow> real list list \<Rightarrow> real option \<Rightarrow> real option \<Rightarrow> real \<Rightarrow> error + real list" where
  "beer_lambert_law attenuation_coeffs distances s k slice_size_cm =
     (let distances = map (map (\<lambda>d. d * slice_size_cm / 2)) distances in
      case tensor_mul attenuation_coeffs distances of
        Inl e \<Rightarrow> Inl e
      | Inr products \<Rightarrow>
          (let exp_t = map (\<lambda>row. exp (- sum_list row)) products in
           case (s, k) of
             (Some s', Some k') \<Rightarrow> collect (map (log_scaled s' k') exp_t)
           | _ \<Rightarrow> Inr exp_t))"

text \<open>
  A tensor of shape \<open>(B, N)\<close>.
\<close>

definition shape2 :: "nat \<Rightarrow> nat \<Rightarrow> 'a list list \<Rightarrow> bool" where
  "shape2 B N a \<longleftrightarrow> length a = B \<and> (\<forall>row \<in> set a. length row = N)"

subsection \<open>\<^verbatim>\<open>run_inference\<close> (ct_creation.py, lines 57-107)\<close>

text \<open>
  Sequencing of steps that may raise.
\<close>

definition bind_err :: "error + 'a \<Rightarrow> ('a \<Rightarrow> error + 'b) \<Rightarrow> error + 'b" where
  "bind_err r f = (case r of Inl e \<Rightarrow> Inl e | Inr x \<Rightarrow> f x)"


text \<open>
  Lines 81-85: \<^verbatim>\<open>torch.linspace(-1, 1, steps)\<close>, and the grid of coordinates: with
  \<^verbatim>\<open>indexing="xy"\<close> the mesh has shape \<open>(len y, len x, len z)\<close>, so that in the flattened
  list \<open>y\<close> varies slowest and \<open>z\<close> fastest.
\<close>

definition linspace :: "real \<Rightarrow> real \<Rightarrow> nat \<Rightarrow> real list" where
  "linspace a b steps =
     (if steps = 1 then [a]
      else map (\<lambda>i. a + (b - a) * real i / real (steps - 1)) [0..<steps])"

definition grid_coords :: "real list \<Rightarrow> real list \<Rightarrow> real list \<Rightarrow> vec3 list" where
  "grid_coords x y z =
     concat (map (\<lambda>yv. concat (map (\<lambda>xv. map (\<lambda>zv. (xv, yv, zv)) z) x)) y)"

text \<open>
  Lines 87-94. The output buffer of \<^verbatim>\<open>torch.empty\<close>: a cell is \<open>None\<close> until a value is
  stored in it. \<open>stores\<close> is the trace of the stores: the indices written, in the order of
  the writes.
\<close>

record buffer =
  cells :: "real option list"
  stores :: "nat list"

text \<open>
  \<^verbatim>\<open>output[lo:hi] = vals\<close>: the slice is clipped to the buffer, the values must have
  the length of the slice (a single value is broadcast).
\<close>

definition assign_slice :: "buffer \<Rightarrow> nat \<Rightarrow> nat \<Rightarrow> real list \<Rightarrow> error + buffer" where
  "assign_slice buf lo hi vals =
     (let n = length (cells buf); lo' = min lo n; hi' = max lo' (min hi n);
          vals' = (if length vals = hi' - lo' then Some vals
                   else if length vals = 1 then Some (replicate (hi' - lo') (hd vals))
                   else None)
      in case vals' of
           None \<Rightarrow> Inl ShapeError
         | Some vs \<Rightarrow>
             Inr \<lparr>cells = take lo' (cells buf) @ map Some vs @ drop hi' (cells buf),
                  stores = stores buf @ [lo'..<hi']\<rparr>)"

text \<open>
  \<^verbatim>\<open>coords.split(chunk_size, dim=0)\<close>: chunks of \<open>chunk_size\<close> elements, the last one
  shorter when the length is not a multiple; an empty tensor gives one empty chunk. A
  split size of 0 is refused unless the tensor is empty.
\<close>

function split_chunks :: "nat \<Rightarrow> 'a list \<Rightarrow> 'a list list" where
  "split_chunks split_size xs =
     (if split_size = 0 \<or> length xs \<le> split_size then [xs]
      else take split_size xs # split_chunks split_size (drop split_size xs))"
  by pat_completeness auto
termination
  by (relation "measure (\<lambda>(split_size, xs). length xs)") auto

declare split_chunks.simps [simp del]

definition torch_split :: "nat \<Rightarrow> 'a list \<Rightarrow> error + 'a list list" where
  "torch_split split_size xs =
     (if split_size = 0 \<and> xs \<noteq> [] then Inl SplitSizeError else Inr (split_chunks split_size xs))"

text \<open>
  The loop over \<^verbatim>\<open>enumerate(coords)\<close>: chunk \<open>i\<close> is given to the model and its outputs
  are stored at \<open>output[i * chunk_size : (i + 1) * chunk_size]\<close>. The model is a parameter
  (the class \<^verbatim>\<open>XRayModel\<close> is not part of the sources at hand): a function from a chunk
  of points to the flattened outputs.
\<close>

fun chunk_loop ::
    "(vec3 list \<Rightarrow> real list) \<Rightarrow> nat \<Rightarrow> nat \<Rightarrow> vec3 list list \<Rightarrow> buffer \<Rightarrow> error + buffer" where
  "chunk_loop model chunk_size i [] output = Inr output"
| "chunk_loop model chunk_size i (chunk # rest) output =
     (let output_chunk = model chunk in
      case assign_slice output (i * chunk_size) ((i + 1) * chunk_size) output_chunk of
        Inl e \<Rightarrow> Inl e
      | Inr output' \<Rightarrow> chunk_loop model chunk_size (i + 1) rest output')"

definition query_loop ::
    "(vec3 list \<Rightarrow> real list) \<Rightarrow> nat \<Rightarrow> vec3 list \<Rightarrow> error + buffer" where
  "query_loop model chunk_size coords =
     (let output = \<lparr>cells = replicate (length coords) None, stores = []\<rparr> in
      case torch_split chunk_size coords of
        Inl e \<Rightarrow> Inl e
      | Inr chunks \<Rightarrow> chunk_loop model chunk_size 0 chunks output)"

text \<open>
  Lines 96-100 for one value: the optional scaling, the conversion
  \<open>1000 * (v - MU_WATER) / (MU_WATER - MU_AIR)\<close> and \<^verbatim>\<open>clamp_min(-1024)\<close>. The constants
  \<^verbatim>\<open>MU_WATER\<close> and \<^verbatim>\<open>MU_AIR\<close> of \<^verbatim>\<open>ctnerf.constants\<close> are not part of the sources at
  hand and are parameters. With equal constants the float division by 0 gives minus
  infinity for a negative numerator, which the clamp raises to \<open>-1024\<close>, and plus infinity
  or not-a-number otherwise, which the clamp leaves: \<open>None\<close>.
\<close>

definition scaled_output :: "real option \<Rightarrow> real \<Rightarrow> real" where
  "scaled_output attenuation_scaling_factor v =
     (case attenuation_scaling_factor of Some factor \<Rightarrow> v * factor | None \<Rightarrow> v)"

definition hounsfield :: "real option \<Rightarrow> real \<Rightarrow> real \<Rightarrow> real \<Rightarrow> real option" where
  "hounsfield attenuation_scaling_factor mu_water mu_air v =
     (let v = scaled_output attenuation_scaling_factor v;
          numerator = 1000 * (v - mu_water);
          denominator = mu_water - mu_air
      in if denominator = 0 then (if numerator < 0 then Some (- 1024) else None)
         else Some (max (numerator / denominator) (- 1024)))"

text \<open>
  The whole buffer: a cell that holds no number stays so.
\<close>

definition convert_to_hounsfield ::
    "real option \<Rightarrow> real \<Rightarrow> real \<Rightarrow> real option list \<Rightarrow> real option list" where
  "convert_to_hounsfield attenuation_scaling_factor mu_water mu_air output =
     map (\<lambda>cell. case cell of
                   None \<Rightarrow> None
                 | Some v \<Rightarrow> hounsfield attenuation_scaling_factor mu_water mu_air v) output"

text \<open>
  Lines 102-104: \<^verbatim>\<open>reshape(n0, n1, n2)\<close> of the flat output and \<^verbatim>\<open>permute(output, (2, 0, 1))\<close>.
\<close>

definition reshape3 :: "nat \<Rightarrow> nat \<Rightarrow> nat \<Rightarrow> 'a list \<Rightarrow> 'a list list list" where
  "reshape3 n0 n1 n2 flat =
     map (\<lambda>a. map (\<lambda>b. map (\<lambda>c. flat ! (a * n1 * n2 + b * n2 + c)) [0..<n2]) [0..<n1]) [0..<n0]"

definition permute_201 :: "nat \<Rightarrow> nat \<Rightarrow> nat \<Rightarrow> 'a list list list \<Rightarrow> 'a list list list" where
  "permute_201 n0 n1 n2 t =
     map (\<lambda>c. map (\<lambda>a. map (\<lambda>b. t ! a ! b ! c) [0..<n1]) [0..<n0]) [0..<n2]"

text \<open>
  Lines 81-83, one axis: reading \<^verbatim>\<open>img_size[i]\<close> raises \<^verbatim>\<open>IndexError\<close> when the entry is
  missing, and \<^verbatim>\<open>torch.linspace\<close> refuses a negative number of steps.
\<close>

definition axis_linspace :: "int list \<Rightarrow> nat \<Rightarrow> error + real list" where
  "axis_linspace img_size i =
     (if length img_size \<le> i then Inl IndexError
      else if img_size ! i < 0 then Inl RuntimeError
      else Inr (linspace (- 1) 1 (nat (img_size ! i))))"

text \<open>
  \<^verbatim>\<open>run_inference\<close>: the three axes in the order of the source, the grid, the chunked
  queries, the calibration, and the reshaped and permuted volume. Switching the model
  between evaluation and training mode and the device transfers are not modelled.
\<close>

definition run_inference ::
    "(vec3 list \<Rightarrow> real list) \<Rightarrow> int list \<Rightarrow> nat \<Rightarrow> real option \<Rightarrow> real \<Rightarrow> real \<Rightarrow>
     error + real option list list list" where
  "run_inference model img_size chunk_size attenuation_scaling_factor mu_water mu_air =
     bind_err (axis_linspace img_size 0) (\<lambda>x.
     bind_err (axis_linspace img_size 1) (\<lambda>y.
     bind_err (axis_linspace img_size 2) (\<lambda>z.
       let coords = grid_coords x y z in
       bind_err (query_loop model chunk_size coords) (\<lambda>output.
         let output = convert_to_hounsfield attenuation_scaling_factor mu_water mu_air
                        (cells output);
             n0 = nat (img_size ! 0); n1 = nat (img_size ! 1); n2 = nat (img_size ! 2)
         in Inr (permute_201 n0 n1 n2 (reshape3 n0 n1 n2 output))))))"

subsection \<open>\<^verbatim>\<open>generate_ct\<close> (ct_creation.py, lines 13-54)\<close>

text \<open>
  The fields of \<^verbatim>\<open>InferenceConfig\<close> that \<^verbatim>\<open>generate_ct\<close> reads; the class itself is
  not part of the sources at hand.
\<close>

record inference_config =
  xray_metadata_size :: "real list"
  xray_metadata_spacing :: "real list"
  conf_voxel_spacing :: "real list option"
  conf_image_size :: "int list option"
  conf_fine_model :: "(vec3 list \<Rightarrow> real list) option"
  conf_coarse_model :: "(vec3 list \<Rightarrow> real list) option"
  conf_chunk_size :: nat
  conf_attenuation_scaling_factor :: "real option"

text \<open>
  Lines 22-23: \<^verbatim>\<open>[xs[0]] + xs\<close>; numpy products and quotients of arrays of one
  dimension (a division by 0 gives an infinity or not-a-number, which the real-valued
  arrays cannot hold: the outcome \<open>NonFinite\<close> marks such a run, where Python raises
  nothing); and \<^verbatim>\<open>astype(int)\<close>, which truncates towards 0 and gives \<open>-2\<^sup>6\<^sup>3\<close> for a value
  outside the 64-bit integers (as the conversion does on x86-64).
\<close>

definition prepend_first :: "'a list \<Rightarrow> error + 'a list" where
  "prepend_first xs = (case xs of [] \<Rightarrow> Inl IndexError | x # _ \<Rightarrow> Inr (x # xs))"

definition np_mul :: "real list \<Rightarrow> real list \<Rightarrow> error + real list" where
  "np_mul xs ys = broadcast_op (*) xs ys"

definition np_div :: "real list \<Rightarrow> real list \<Rightarrow> error + real list" where
  "np_div xs ys =
     (case broadcast_op (/) xs ys of
        Inl e \<Rightarrow> Inl e
      | Inr quotients \<Rightarrow> if quotients \<noteq> [] \<and> 0 \<in> set ys then Inl NonFinite else Inr quotients)"

definition astype_int :: "real \<Rightarrow> int" where
  "astype_int v =
     (let truncated = (if 0 \<le> v then \<lfloor>v\<rfloor> else \<lceil>v\<rceil>)
      in if - (2 ^ 63) \<le> truncated \<and> truncated < 2 ^ 63 then truncated else - (2 ^ 63))"

text \<open>
  Lines 21-37: the image size and the voxel spacing. With a target voxel spacing the
  first branch is taken, whatever the target image size; with neither of them no branch
  assigns \<^verbatim>\<open>image_size\<close>, and reading it at line 41 raises \<^verbatim>\<open>UnboundLocalError\<close>.
\<close>

definition volume_sizing :: "inference_config \<Rightarrow> error + (int list \<times> real list)" where
  "volume_sizing conf =
     bind_err (prepend_first (xray_metadata_size conf)) (\<lambda>original_size.
     bind_err (prepend_first (xray_metadata_spacing conf)) (\<lambda>original_spacing.
       case conf_voxel_spacing conf of
         Some new_spacing \<Rightarrow>
           bind_err (np_div original_size original_spacing) (\<lambda>ratio.
           bind_err (np_mul ratio new_spacing) (\<lambda>sizes.
             Inr (map astype_int sizes, new_spacing)))
       | None \<Rightarrow>
           (case conf_image_size conf of
              Some new_size \<Rightarrow>
                bind_err (np_mul original_spacing original_size) (\<lambda>extent.
                bind_err (np_div extent (map real_of_int new_size)) (\<lambda>voxel_spacing.
                  Inr (new_size, voxel_spacing)))
            | None \<Rightarrow> Inl UnboundLocalError)))"

text \<open>
  \<^verbatim>\<open>generate_ct\<close>: the result is the volume and the voxel spacing handed to
  \<^verbatim>\<open>tensor_to_sitk\<close>; building and writing the image is left to SimpleITK.
  \<^verbatim>\<open>conf.fine_model or conf.coarse_model\<close> takes the fine model when there is one.
\<close>

definition generate_ct ::
    "inference_config \<Rightarrow> real \<Rightarrow> real \<Rightarrow> error + (real option list list list \<times> real list)" where
  "generate_ct conf mu_water mu_air =
     bind_err (volume_sizing conf) (\<lambda>(image_size, voxel_spacing).
       case (case conf_fine_model conf of Some m \<Rightarrow> Some m | None \<Rightarrow> conf_coarse_model conf) of
         None \<Rightarrow> Inl AttributeError
       | Some model \<Rightarrow>
           bind_err (run_inference model image_size (conf_chunk_size conf)
                       (conf_attenuation_scaling_factor conf) mu_water mu_air) (\<lambda>output.
             Inr (output, voxel_spacing)))"

text \<open>
  Concrete inputs: a field, a model that answers the attenuation of water \<open>1/5\<close>
  everywhere, and three configurations.
\<close>

definition example_field :: "vec3 \<Rightarrow> real" where
  "example_field p = (case p of (x, y, z) \<Rightarrow> x + y + z)"

definition water_model :: "vec3 list \<Rightarrow> real list" where
  "water_model chunk = map (\<lambda>p. 1 / 5) chunk"

definition bug_config :: inference_config where
  "bug_config =
     \<lparr>xray_metadata_size = [256, 256], xray_metadata_spacing = [1, 1],
      conf_voxel_spacing = Some [2, 2, 2], conf_image_size = None,
      conf_fine_model = None, conf_coarse_model = Some water_model,
      conf_chunk_size = 3, conf_attenuation_scaling_factor = None\<rparr>"

definition both_config :: inference_config where
  "both_config =
     \<lparr>xray_metadata_size = [2, 2], xray_metadata_spacing = [1, 1],
      conf_voxel_spacing = Some [1, 1, 1], conf_image_size = Some [4, 4, 4],
      conf_fine_model = None, conf_coarse_model = Some water_model,
      conf_chunk_size = 3, conf_attenuation_scaling_factor = None\<rparr>"

definition neither_config :: inference_config where
  "neither_config =
     \<lparr>xray_metadata_size = [2, 2], xray_metadata_spacing = [1, 1],
      conf_voxel_spacing = None, conf_image_size = None,
      conf_fine_model = None, conf_coarse_model = Some water_model,
      conf_chunk_size = 3, conf_attenuation_scaling_factor = None\<rparr>"

subsection \<open>Sampling strategies used as concrete inputs\<close>

text \<open>
  Three constant strategies for a batch of one ray: a coarse one, a fine one that stays
  inside the ray, and a fine one that returns a value beyond the far bound.
\<close>

definition example_fine_strategy :: fine_strategy where
  "example_fine_strategy n_samples coarse_values coarse_distances = [[3/10, 7/10]]"

definition overshoot_fine_strategy :: fine_strategy where
  "overshoot_fine_strategy n_samples coarse_values coarse_distances = [[5]]"

definition example_coarse_strategy :: coarse_strategy where
  "example_coarse_strategy n_samples batch_size plateau_ratio ray_bounds = [[1/10, 1/2, 9/10]]"

section \<open>Verified properties\<close>

subsection \<open>The Distance Rule\<close>

lemma length_diff: "length (diff xs) = length xs - 1"
  by (induction xs rule: diff.induct) simp_all

lemma nth_diff: "Suc i < length xs \<Longrightarrow> diff xs ! i = xs ! Suc i - xs ! i"
proof (induction xs arbitrary: i rule: diff.induct)
  case (1 x y zs)
  then show ?case by (cases i) simp_all
qed simp_all

lemma diff_append_far: "distance_rule t far (diff (t @ [far]))"
proof -
  have len: "length (diff (t @ [far])) = length t"
    by (simp add: length_diff)
  have inner: "d = t ! Suc i - t ! i"
    if "Suc i < length t" "d = diff (t @ [far]) ! i" for i d
    using that by (simp add: nth_diff nth_append)
  have final: "diff (t @ [far]) ! (length t - 1) = far - t ! (length t - 1)"
    if "t \<noteq> []"
  proof -
    from that have "Suc (length t - 1) = length t" by (cases t) simp_all
    then have "diff (t @ [far]) ! (length t - 1)
                 = (t @ [far]) ! length t - (t @ [far]) ! (length t - 1)"
      using nth_diff [of "length t - 1" "t @ [far]"] by simp
    with that show ?thesis by (simp add: nth_append)
  qed
  from len inner final show ?thesis
    unfolding distance_rule_def by blast
qed

text \<open>
  Claim C1. For a batch of \<open>B\<close> rays whose bounds are supplied (one pair per ray),
  \<^verbatim>\<open>get_sampling_distances\<close> returns, for every ray, as many distances as samples, with
  \<open>distances[i] = t[i+1] - t[i]\<close> below the last sample and
  \<open>distances[N-1] = far_bound - t[N-1]\<close>, the far bound being the second bound of the
  ray. Without ray bounds the far bound is the constant 2. The rule holds for every
  sample sequence, ascending ones included.
\<close>

theorem get_sampling_distances_rule:
  "(length rb = length ts \<longrightarrow>
      (\<exists>ds. get_sampling_distances ts (Some rb) = Inr ds \<and> length ds = length ts \<and>
         (\<forall>b < length ts. distance_rule (ts ! b) (snd (rb ! b)) (ds ! b)))) \<and>
   (\<exists>ds. get_sampling_distances ts None = Inr ds \<and> length ds = length ts \<and>
      (\<forall>b < length ts. distance_rule (ts ! b) 2 (ds ! b)))"
  by (simp add: get_sampling_distances_def ray_limit_def diff_append_far)

theorem get_sampling_distances_rule_witness:
  "length [(0, 3/2 :: real)] = length [[1/10, 1/2, 9/10 :: real]] \<and>
   get_sampling_distances [[1/10, 1/2, 9/10]] (Some [(0, 3/2)]) = Inr [[2/5, 2/5, 3/5]] \<and>
   distance_rule [1/10, 1/2, 9/10] (3/2) [2/5, 2/5, 3/5] \<and>
   get_sampling_distances [[1/10, 1/2, 9/10]] None = Inr [[2/5, 2/5, 11/10]] \<and>
   distance_rule [1/10, 1/2, 9/10] 2 [2/5, 2/5, 11/10]"
  using get_sampling_distances_rule [of "[(0, 3/2)]" "[[1/10, 1/2, 9/10]]"]
  by (simp add: get_sampling_distances_def ray_limit_def)

subsection \<open>The fine pass merges, sorts and then measures\<close>


lemma bshape_same: "bshape B B = Inr B"
  by (simp add: bshape_def)

lemma expand_same: "length xs = B \<Longrightarrow> expand B xs = xs"
  by (simp add: expand_def)

lemma map_zip3_upt:
  assumes "length xs = B" "length ys = B" "length zs = B"
  shows "map f (zip xs (zip ys zs)) = map (\<lambda>b. f (xs ! b, ys ! b, zs ! b)) [0..<B]"
  using assms by (intro nth_equalityI) simp_all

lemma sample_points_batch:
  assumes "length start_pos = B" "length heading_vector = B" "length T = B"
  shows "sample_points start_pos heading_vector T =
           Inr (concat (map (\<lambda>b. ray_points (start_pos ! b) (heading_vector ! b) (T ! b)) [0..<B]))"
  using assms
  by (simp add: sample_points_def bshape_same expand_same map_zip3_upt [of _ B])

lemma get_sampling_distances_batch:
  assumes "bounds_fit rb (length T)"
  shows "\<exists>ds. get_sampling_distances T rb = Inr ds \<and> length ds = length T \<and>
           (\<forall>b < length T. ds ! b = diff (T ! b @ [far_bound rb b]))"
  using assms
  by (cases rb)
     (simp_all add: get_sampling_distances_def ray_limit_def bounds_fit_def far_bound_def)

lemma merge_samples_batch:
  assumes "length coarse = B" "length fine = B"
  shows "\<exists>T. merge_samples coarse fine = Inr T \<and> length T = B \<and>
           (\<forall>b < B. T ! b = sort (coarse ! b @ fine ! b))"
  using assms by (simp add: merge_samples_def cat1_def)

text \<open>
  Claim C4. With batch sizes that agree, \<^verbatim>\<open>get_fine_samples\<close> returns points and
  distances computed from the tensor \<open>T\<close> of merged samples: every row of \<open>T\<close> is
  ascending and holds exactly the coarse and the fine \<open>t\<close> values of its ray, the
  distances follow the Distance Rule on \<open>T\<close>, and the points are \<open>start + t * heading\<close>
  for the \<open>t\<close> of \<open>T\<close>, ray after ray. Merging the coarse \<open>[0.1, 0.5, 0.9]\<close> with the
  fine \<open>[0.3, 0.7]\<close> gives \<open>[0.1, 0.3, 0.5, 0.7, 0.9]\<close>, and its distances differ from
  those of the unsorted concatenation.
\<close>

theorem get_fine_samples_merge_sort:
  "(length start_pos = B \<and> length heading_vector = B \<and> length coarse = B \<and>
    length (fine n vals cd) = B \<and> bounds_fit rb B \<longrightarrow>
    (\<exists>T pts ds.
       merge_samples coarse (fine n vals cd) = Inr T \<and>
       get_fine_samples fine start_pos heading_vector rb coarse vals cd n = Inr (pts, ds) \<and>
       length T = B \<and> length ds = B \<and>
       (\<forall>b < B. sorted (T ! b) \<and> mset (T ! b) = mset (coarse ! b) + mset (fine n vals cd ! b) \<and>
                distance_rule (T ! b) (far_bound rb b) (ds ! b)) \<and>
       pts = concat (map (\<lambda>b. ray_points (start_pos ! b) (heading_vector ! b) (T ! b)) [0..<B]))) \<and>
   merge_samples [[1/10, 1/2, 9/10]] [[3/10, 7/10]] = Inr [[1/10, 3/10, 1/2, 7/10, 9/10]] \<and>
   get_sampling_distances [[1/10, 3/10, 1/2, 7/10, 9/10]] (Some [(t1, t2)])
     = Inr [[1/5, 1/5, 1/5, 1/5, t2 - 9/10]] \<and>
   get_sampling_distances [[1/10, 1/2, 9/10, 3/10, 7/10]] (Some [(t1, t2)])
     = Inr [[2/5, 2/5, - (3/5), 2/5, t2 - 7/10]] \<and>
   get_sampling_distances [[1/10, 3/10, 1/2, 7/10, 9/10]] (Some [(t1, t2)])
     \<noteq> get_sampling_distances [[1/10, 1/2, 9/10, 3/10, 7/10]] (Some [(t1, t2)])"
proof -
  have general: "\<exists>T pts ds.
       merge_samples coarse (fine n vals cd) = Inr T \<and>
       get_fine_samples fine start_pos heading_vector rb coarse vals cd n = Inr (pts, ds) \<and>
       length T = B \<and> length ds = B \<and>
       (\<forall>b < B. sorted (T ! b) \<and> mset (T ! b) = mset (coarse ! b) + mset (fine n vals cd ! b) \<and>
                distance_rule (T ! b) (far_bound rb b) (ds ! b)) \<and>
       pts = concat (map (\<lambda>b. ray_points (start_pos ! b) (heading_vector ! b) (T ! b)) [0..<B])"
    if shapes: "length start_pos = B" "length heading_vector = B" "length coarse = B"
      "length (fine n vals cd) = B" "bounds_fit rb B"
  proof -
    from merge_samples_batch [OF shapes(3,4)] obtain T where
      T: "merge_samples coarse (fine n vals cd) = Inr T" "length T = B"
         "\<forall>b < B. T ! b = sort (coarse ! b @ fine n vals cd ! b)"
      by blast
    from shapes(5) T(2) have "bounds_fit rb (length T)" by simp
    from get_sampling_distances_batch [OF this] T(2) obtain ds where
      ds: "get_sampling_distances T rb = Inr ds" "length ds = B"
          "\<forall>b < B. ds ! b = diff (T ! b @ [far_bound rb b])"
      by auto
    let ?pts = "concat (map (\<lambda>b. ray_points (start_pos ! b) (heading_vector ! b) (T ! b)) [0..<B])"
    have run: "get_fine_samples fine start_pos heading_vector rb coarse vals cd n = Inr (?pts, ds)"
      by (simp add: get_fine_samples_def T(1) ds(1)
            sample_points_batch [OF shapes(1) shapes(2) T(2)])
    have rows: "sorted (T ! b) \<and> mset (T ! b) = mset (coarse ! b) + mset (fine n vals cd ! b) \<and>
                distance_rule (T ! b) (far_bound rb b) (ds ! b)" if "b < B" for b
      using that T(3) ds(3) by (simp add: diff_append_far)
    from T(1,2) ds(2) run rows show ?thesis by blast
  qed
  have merged: "merge_samples [[1/10, 1/2, 9/10]] [[3/10, 7/10]]
                  = Inr [[1/10, 3/10, 1/2, 7/10, 9/10]]"
    by (simp add: merge_samples_def cat1_def)
  have sorted_d: "get_sampling_distances [[1/10, 3/10, 1/2, 7/10, 9/10]] (Some [(t1, t2)])
                    = Inr [[1/5, 1/5, 1/5, 1/5, t2 - 9/10]]"
    by (simp add: get_sampling_distances_def ray_limit_def)
  have unsorted_d: "get_sampling_distances [[1/10, 1/2, 9/10, 3/10, 7/10]] (Some [(t1, t2)])
                    = Inr [[2/5, 2/5, - (3/5), 2/5, t2 - 7/10]]"
    by (simp add: get_sampling_distances_def ray_limit_def)
  have differ: "get_sampling_distances [[1/10, 3/10, 1/2, 7/10, 9/10]] (Some [(t1, t2)])
     \<noteq> get_sampling_distances [[1/10, 1/2, 9/10, 3/10, 7/10]] (Some [(t1, t2)])"
    unfolding sorted_d unfolding unsorted_d by simp
  from general merged sorted_d unsorted_d differ show ?thesis by blast
qed


theorem get_fine_samples_merge_sort_witness:
  "length [(1, 0, 0) :: vec3] = 1 \<and> length [(-1, 0, 0) :: vec3] = 1 \<and>
   length [[1/10, 1/2, 9/10 :: real]] = 1 \<and>
   length (example_fine_strategy 2 [[0, 1, 0]] [[2/5, 2/5, 11/10]]) = 1 \<and>
   bounds_fit (Some [(0, 2)]) 1 \<and>
   get_fine_samples example_fine_strategy [(1, 0, 0)] [(-1, 0, 0)] (Some [(0, 2)])
       [[1/10, 1/2, 9/10]] [[0, 1, 0]] [[2/5, 2/5, 11/10]] 2
     = Inr ([(9/10, 0, 0), (7/10, 0, 0), (1/2, 0, 0), (3/10, 0, 0), (1/10, 0, 0)],
            [[1/5, 1/5, 1/5, 1/5, 11/10]])"
  using get_fine_samples_merge_sort [of "[(1, 0, 0)]" 1 "[(-1, 0, 0)]" "[[1/10, 1/2, 9/10]]"
      example_fine_strategy 2 "[[0, 1, 0]]" "[[2/5, 2/5, 11/10]]" "Some [(0, 2)]" 0 2]
  by (simp add: example_fine_strategy_def bounds_fit_def get_fine_samples_def merge_samples_def
        cat1_def get_sampling_distances_def ray_limit_def sample_points_def bshape_def
        expand_def ray_points_def)

subsection \<open>Sign of the spacing distances\<close>

lemma diff_sorted_nonneg: "sorted xs \<Longrightarrow> d \<in> set (diff xs) \<Longrightarrow> 0 \<le> d"
  by (induction xs rule: diff.induct) auto

lemma diff_far_nonneg:
  assumes "sorted t" "\<forall>x \<in> set t. x \<le> far" "d \<in> set (diff (t @ [far]))"
  shows "0 \<le> d"
proof -
  from assms(1,2) have "sorted (t @ [far])" by (simp add: sorted_append)
  from diff_sorted_nonneg [OF this assms(3)] show ?thesis .
qed

lemma nonneg_distancesI:
  assumes "length ds = B" "\<forall>b < B. ds ! b = diff (T ! b @ [far_bound rb b])"
    "\<forall>b < B. sorted (T ! b) \<and> (\<forall>t \<in> set (T ! b). t \<le> far_bound rb b)"
  shows "nonneg_distances ds"
  unfolding nonneg_distances_def
proof (intro ballI)
  fix row d assume "row \<in> set ds" "d \<in> set row"
  from \<open>row \<in> set ds\<close> assms(1) obtain b where b: "b < B" "row = ds ! b"
    by (auto simp: in_set_conv_nth)
  with assms(2) \<open>d \<in> set row\<close> have "d \<in> set (diff (T ! b @ [far_bound rb b]))" by simp
  with assms(3) b(1) show "0 \<le> d" using diff_far_nonneg by blast
qed

text \<open>
  Claim C7, as amended. The coarse pass, with a strategy whose rows are ascending and
  do not exceed the far bound of their ray, returns distances that are all \<open>\<ge> 0\<close>; the
  fine pass returns distances that are all \<open>\<ge> 0\<close> when neither the coarse nor the fine
  \<open>t\<close> values exceed the far bound of their ray.
\<close>

theorem sample_distances_nonneg:
  "(length start_pos = B \<and> length heading_vector = B \<and> length (sampling_function n B pr rb) = B \<and>
    bounds_fit rb B \<and>
    (\<forall>b < B. sorted (sampling_function n B pr rb ! b) \<and>
             (\<forall>t \<in> set (sampling_function n B pr rb ! b). t \<le> far_bound rb b)) \<longrightarrow>
    (\<exists>pts ds. get_coarse_samples start_pos heading_vector n B rb pr sampling_function
                 = Inr (sampling_function n B pr rb, pts, ds) \<and>
              length ds = B \<and> nonneg_distances ds)) \<and>
   (length start_pos = B \<and> length heading_vector = B \<and> length coarse = B \<and>
    length (fine m vals cd) = B \<and> bounds_fit rb B \<and>
    (\<forall>b < B. (\<forall>t \<in> set (coarse ! b). t \<le> far_bound rb b) \<and>
             (\<forall>t \<in> set (fine m vals cd ! b). t \<le> far_bound rb b)) \<longrightarrow>
    (\<exists>pts ds. get_fine_samples fine start_pos heading_vector rb coarse vals cd m = Inr (pts, ds) \<and>
              length ds = B \<and> nonneg_distances ds))"
proof (intro conjI impI)
  let ?T = "sampling_function n B pr rb"
  assume h: "length start_pos = B \<and> length heading_vector = B \<and> length ?T = B \<and>
    bounds_fit rb B \<and>
    (\<forall>b < B. sorted (?T ! b) \<and> (\<forall>t \<in> set (?T ! b). t \<le> far_bound rb b))"
  then have "bounds_fit rb (length ?T)" by simp
  from get_sampling_distances_batch [OF this] h obtain ds where
    ds: "get_sampling_distances ?T rb = Inr ds" "length ds = B"
        "\<forall>b < B. ds ! b = diff (?T ! b @ [far_bound rb b])"
    by auto
  from h have pts: "\<exists>pts. sample_points start_pos heading_vector ?T = Inr pts"
    using sample_points_batch [of start_pos B heading_vector ?T] by simp
  from h have "\<forall>b < B. sorted (?T ! b) \<and> (\<forall>t \<in> set (?T ! b). t \<le> far_bound rb b)"
    by simp
  from nonneg_distancesI [OF ds(2) ds(3) this] have "nonneg_distances ds" .
  with ds(1,2) pts
  show "\<exists>pts ds. get_coarse_samples start_pos heading_vector n B rb pr sampling_function
                 = Inr (?T, pts, ds) \<and> length ds = B \<and> nonneg_distances ds"
    by (auto simp: get_coarse_samples_def)
next
  let ?F = "fine m vals cd"
  assume h: "length start_pos = B \<and> length heading_vector = B \<and> length coarse = B \<and>
    length ?F = B \<and> bounds_fit rb B \<and>
    (\<forall>b < B. (\<forall>t \<in> set (coarse ! b). t \<le> far_bound rb b) \<and>
             (\<forall>t \<in> set (?F ! b). t \<le> far_bound rb b))"
  from h merge_samples_batch [of coarse B ?F] obtain T where
    T: "merge_samples coarse ?F = Inr T" "length T = B"
       "\<forall>b < B. T ! b = sort (coarse ! b @ ?F ! b)"
    by blast
  from h T(2) have "bounds_fit rb (length T)" by simp
  from get_sampling_distances_batch [OF this] T(2) obtain ds where
    ds: "get_sampling_distances T rb = Inr ds" "length ds = B"
        "\<forall>b < B. ds ! b = diff (T ! b @ [far_bound rb b])"
    by auto
  from h T(2) have pts: "\<exists>pts. sample_points start_pos heading_vector T = Inr pts"
    using sample_points_batch [of start_pos B heading_vector T] by simp
  have "\<forall>b < B. sorted (T ! b) \<and> (\<forall>t \<in> set (T ! b). t \<le> far_bound rb b)"
    using h T(3) by auto
  from nonneg_distancesI [OF ds(2) ds(3) this] have "nonneg_distances ds" .
  with T(1) ds(1,2) pts
  show "\<exists>pts ds. get_fine_samples fine start_pos heading_vector rb coarse vals cd m = Inr (pts, ds) \<and>
              length ds = B \<and> nonneg_distances ds"
    by (auto simp: get_fine_samples_def)
qed

theorem sample_distances_nonneg_witness:
  "get_coarse_samples [(1, 0, 0)] [(-1, 0, 0)] 3 1 (Some [(0, 2)]) None example_coarse_strategy
     = Inr ([[1/10, 1/2, 9/10]], [(9/10, 0, 0), (1/2, 0, 0), (1/10, 0, 0)], [[2/5, 2/5, 11/10]]) \<and>
   nonneg_distances [[2/5, 2/5, 11/10]] \<and>
   get_fine_samples example_fine_strategy [(1, 0, 0)] [(-1, 0, 0)] (Some [(0, 2)])
       [[1/10, 1/2, 9/10]] [[0, 1, 0]] [[2/5, 2/5, 11/10]] 2
     = Inr ([(9/10, 0, 0), (7/10, 0, 0), (1/2, 0, 0), (3/10, 0, 0), (1/10, 0, 0)],
            [[1/5, 1/5, 1/5, 1/5, 11/10]]) \<and>
   nonneg_distances [[1/5, 1/5, 1/5, 1/5, 11/10]]"
  using sample_distances_nonneg [of "[(1, 0, 0)]" 1 "[(-1, 0, 0)]" example_coarse_strategy 3 None
      "Some [(0, 2)]" "[[1/10, 1/2, 9/10]]" example_fine_strategy 2 "[[0, 1, 0]]"
      "[[2/5, 2/5, 11/10]]"]
  by (simp add: example_fine_strategy_def example_coarse_strategy_def bounds_fit_def
        far_bound_def get_fine_samples_def get_coarse_samples_def merge_samples_def
        cat1_def get_sampling_distances_def ray_limit_def sample_points_def bshape_def
        expand_def ray_points_def nonneg_distances_def)

text \<open>
  Claim C7, as stated, fails for the fine pass: the contract of the fine strategy does
  not bound its values, and a fine sample beyond the far bound makes the last distance
  negative. Here the far bound is 2 and the fine sample is 5.
\<close>

theorem fine_distance_negative_counterexample:
  "get_fine_samples overshoot_fine_strategy [(1, 0, 0)] [(-1, 0, 0)] (Some [(0, 2)])
       [[1/2]] [[0]] [[3/2]] 1
     = Inr ([(1/2, 0, 0), (-4, 0, 0)], [[9/2, -3]]) \<and>
   \<not> nonneg_distances [[9/2, -3]]"
  by (simp add: overshoot_fine_strategy_def get_fine_samples_def merge_samples_def
        cat1_def get_sampling_distances_def ray_limit_def sample_points_def bshape_def
        expand_def ray_points_def nonneg_distances_def)

subsection \<open>Ray bounds and start positions\<close>

lemma ray_bounds_of_ordered: "fst (ray_bounds_of s v) \<le> snd (ray_bounds_of s v)"
  by (simp add: ray_bounds_of_def torch_sqrt_def nan_to_num_def Let_def)

lemma ray_bounds_of_degenerate:
  "(p_half s v)\<^sup>2 - q_term s < 0 \<Longrightarrow> ray_bounds_of s v = (- p_half s v, - p_half s v)"
  by (simp add: ray_bounds_of_def torch_sqrt_def nan_to_num_def Let_def)

text \<open>
  Claim C5. For start positions and heading vectors of one batch size,
  \<^verbatim>\<open>_get_ray_bounds\<close> returns (no error) one pair of bounds per ray with \<open>t1 \<le> t2\<close>;
  where the discriminant \<open>p_half\<^sup>2 - q\<close> is negative the square root counts as 0, so
  that \<open>t1 = t2 = - p_half\<close>.
\<close>

theorem get_ray_bounds_ordered:
  "length start_pos = B \<and> length heading_vector = B \<longrightarrow>
     (\<exists>bounds. get_ray_bounds start_pos heading_vector = Inr bounds \<and> length bounds = B \<and>
        (\<forall>b < B. fst (bounds ! b) \<le> snd (bounds ! b) \<and>
           ((p_half (start_pos ! b) (heading_vector ! b))\<^sup>2 - q_term (start_pos ! b) < 0 \<longrightarrow>
              bounds ! b = (- p_half (start_pos ! b) (heading_vector ! b),
                            - p_half (start_pos ! b) (heading_vector ! b)))))"
  by (simp add: get_ray_bounds_def bshape_same expand_same ray_bounds_of_ordered
        ray_bounds_of_degenerate)

theorem get_ray_bounds_ordered_witness:
  "length [(2, 0, 0) :: vec3] = 1 \<and> length [(0, 1, 0) :: vec3] = 1 \<and>
   (p_half (2, 0, 0) (0, 1, 0))\<^sup>2 - q_term (2, 0, 0) < 0 \<and>
   get_ray_bounds [(2, 0, 0)] [(0, 1, 0)] = Inr [(0, 0)]"
  using get_ray_bounds_ordered [of "[(2, 0, 0)]" 1 "[(0, 1, 0)]"]
  by (simp add: get_ray_bounds_def bshape_def expand_def ray_bounds_of_def torch_sqrt_def
        nan_to_num_def p_half_def q_term_def)

text \<open>
  Claim C6, as stated, fails: the pixel \<open>(0, 0)\<close> of a \<open>3 \<times> 3\<close> image at angle 0 starts
  at \<open>(1, -1, -1)\<close>, where \<open>x\<^sup>2 + y\<^sup>2 = 2\<close>.
\<close>

theorem start_off_cylinder_counterexample:
  "get_rays [(0, 0)] [0] (3, 3) = Inr (Some [(1, -1, -1)], [(-1, 0, 0)], Some [(1, 1)]) \<and>
   \<not> on_unit_cylinder (1, -1, -1)"
  by (simp add: get_rays_def create_z_rotation_matrix_def rotation_z_def heading_z_def
        normalized_pos_def get_ray_bounds_def bshape_def expand_def ray_bounds_of_def
        torch_sqrt_def nan_to_num_def p_half_def q_term_def on_unit_cylinder_def radius_sq_def)

lemma rotation_identity:
  "(c - s * n)\<^sup>2 + (s + c * n)\<^sup>2 = (c\<^sup>2 + s\<^sup>2) * (1 + n\<^sup>2)" for c s n :: real
  by (simp add: power2_eq_square algebra_simps)

lemma rotated_radius:
  "(cos a - sin a * n)\<^sup>2 + (sin a + cos a * n)\<^sup>2 = 1 + n\<^sup>2" for a n :: real
  by (simp add: rotation_identity)

lemma tangent_identity:
  "(c - s * n) * c + (s + c * n) * s = c\<^sup>2 + s\<^sup>2" for c s n :: real
  by (simp add: power2_eq_square algebra_simps)

lemma rotated_tangent:
  "(cos a - sin a * n) * cos a + (sin a + cos a * n) * sin a = 1" for a n :: real
  by (simp add: tangent_identity)

text \<open>
  Claim C6, as amended. For every pixel position and gantry angle \<open>\<theta>\<close> (image shape not 1
  in either coordinate) the start position returned by \<^verbatim>\<open>get_rays\<close> is
  \<open>(cos \<theta> - n\<^sub>0 sin \<theta>, sin \<theta> + n\<^sub>0 cos \<theta>, n\<^sub>1)\<close>, with \<open>n\<^sub>i = 2 * pixel[i] / (img_shape[i] - 1) - 1\<close>
  the normalised pixel coordinates. It lies on the plane \<open>x cos \<theta> + y sin \<theta> = 1\<close>, which is
  the plane \<open>x = 1\<close> rotated by the angle, and satisfies \<open>x\<^sup>2 + y\<^sup>2 = 1 + n\<^sub>0\<^sup>2\<close>: it is on the
  unit cylinder exactly when \<open>n\<^sub>0 = 0\<close>, that is \<open>2 * pixel[0] = img_shape[0] - 1\<close>.
\<close>

theorem get_rays_start_position:
  "length pixel_pos = B \<and> length angles = B \<and> fst img_shape \<noteq> 1 \<and> snd img_shape \<noteq> 1 \<longrightarrow>
     (\<exists>start_pos heading_vector ray_bounds.
        get_rays pixel_pos angles img_shape
          = Inr (Some start_pos, heading_vector, Some ray_bounds) \<and>
        length start_pos = B \<and>
        (\<forall>b < B.
           start_pos ! b
             = (cos (angles ! b)
                  - sin (angles ! b) * (2 * fst (pixel_pos ! b) / (fst img_shape - 1) - 1),
                sin (angles ! b)
                  + cos (angles ! b) * (2 * fst (pixel_pos ! b) / (fst img_shape - 1) - 1),
                2 * snd (pixel_pos ! b) / (snd img_shape - 1) - 1) \<and>
           fst (start_pos ! b) * cos (angles ! b)
             + fst (snd (start_pos ! b)) * sin (angles ! b) = 1 \<and>
           radius_sq (start_pos ! b)
             = 1 + (2 * fst (pixel_pos ! b) / (fst img_shape - 1) - 1)\<^sup>2 \<and>
           (on_unit_cylinder (start_pos ! b)
              \<longleftrightarrow> 2 * fst (pixel_pos ! b) = fst img_shape - 1)))"
proof (intro impI)
  assume h: "length pixel_pos = B \<and> length angles = B \<and> fst img_shape \<noteq> 1 \<and> snd img_shape \<noteq> 1"
  let ?npos = "map (\<lambda>pix. (1, normalized_pos pix img_shape)) pixel_pos"
  let ?start = "map2 mat_vec (map rotation_z angles) ?npos"
  let ?head = "map heading_z angles"
  let ?n0 = "\<lambda>b. 2 * fst (pixel_pos ! b) / (fst img_shape - 1) - 1"
  let ?n1 = "\<lambda>b. 2 * snd (pixel_pos ! b) / (snd img_shape - 1) - 1"
  have len: "length ?start = B" using h by simp
  from h obtain bounds where bounds: "get_ray_bounds ?start ?head = Inr bounds"
    by (simp add: get_ray_bounds_def bshape_same)
  have run: "get_rays pixel_pos angles img_shape = Inr (Some ?start, ?head, Some bounds)"
    using h bounds by (simp add: get_rays_def create_z_rotation_matrix_def)
  have pos: "?start ! b
      = (cos (angles ! b) - sin (angles ! b) * ?n0 b,
         sin (angles ! b) + cos (angles ! b) * ?n0 b, ?n1 b)"
    if "b < B" for b
    using that h by (simp add: rotation_z_def normalized_pos_def)
  have plane: "fst (?start ! b) * cos (angles ! b) + fst (snd (?start ! b)) * sin (angles ! b) = 1"
    if "b < B" for b
    by (simp only: pos [OF that] fst_conv snd_conv rotated_tangent)
  have rad: "radius_sq (?start ! b) = 1 + (?n0 b)\<^sup>2"
    if "b < B" for b
    by (simp only: pos [OF that] radius_sq_def prod.case rotated_radius)
  have cyl: "on_unit_cylinder (?start ! b) \<longleftrightarrow> 2 * fst (pixel_pos ! b) = fst img_shape - 1"
    if "b < B" for b
  proof -
    have "on_unit_cylinder (?start ! b) \<longleftrightarrow> radius_sq (?start ! b) = 1"
      by (simp add: on_unit_cylinder_def)
    also have "\<dots> \<longleftrightarrow> ?n0 b = 0"
      by (simp only: rad [OF that]) simp
    also have "\<dots> \<longleftrightarrow> 2 * fst (pixel_pos ! b) = fst img_shape - 1"
      using h by (simp add: field_simps)
    finally show ?thesis .
  qed
  from run len pos plane rad cyl show "\<exists>start_pos heading_vector ray_bounds.
        get_rays pixel_pos angles img_shape
          = Inr (Some start_pos, heading_vector, Some ray_bounds) \<and>
        length start_pos = B \<and>
        (\<forall>b < B.
           start_pos ! b
             = (cos (angles ! b)
                  - sin (angles ! b) * (2 * fst (pixel_pos ! b) / (fst img_shape - 1) - 1),
                sin (angles ! b)
                  + cos (angles ! b) * (2 * fst (pixel_pos ! b) / (fst img_shape - 1) - 1),
                2 * snd (pixel_pos ! b) / (snd img_shape - 1) - 1) \<and>
           fst (start_pos ! b) * cos (angles ! b)
             + fst (snd (start_pos ! b)) * sin (angles ! b) = 1 \<and>
           radius_sq (start_pos ! b)
             = 1 + (2 * fst (pixel_pos ! b) / (fst img_shape - 1) - 1)\<^sup>2 \<and>
           (on_unit_cylinder (start_pos ! b)
              \<longleftrightarrow> 2 * fst (pixel_pos ! b) = fst img_shape - 1))"
    by blast
qed

theorem get_rays_start_position_witness:
  "length [(1, 0 :: real)] = 1 \<and> length [pi / 2] = 1 \<and> fst (3 :: real, 3 :: real) \<noteq> 1 \<and>
   snd (3 :: real, 3 :: real) \<noteq> 1 \<and>
   get_rays [(1, 0)] [pi / 2] (3, 3) = Inr (Some [(0, 1, -1)], [(0, -1, 0)], Some [(0, 2)]) \<and>
   radius_sq (0, 1, -1) = 1 \<and> on_unit_cylinder (0, 1, -1)"
  using get_rays_start_position [of "[(1, 0)]" 1 "[pi / 2]" "(3, 3)"]
  by (simp add: get_rays_def create_z_rotation_matrix_def rotation_z_def heading_z_def
        normalized_pos_def get_ray_bounds_def bshape_def expand_def ray_bounds_of_def
        torch_sqrt_def nan_to_num_def p_half_def q_term_def on_unit_cylinder_def radius_sq_def)

subsection \<open>Transmittance\<close>

lemma collect_all_ok: "collect (map Inr xs) = Inr xs"
  by (induction xs) simp_all

lemma broadcast_op_same:
  "length xs = length ys \<Longrightarrow> broadcast_op f xs ys = Inr (map2 f xs ys)"
  by (simp add: broadcast_op_def bshape_def expand_def)

lemma tensor_mul_same:
  assumes "shape2 B N a" "shape2 B N b"
  shows "tensor_mul a b = Inr (map2 (map2 (*)) a b)"
proof -
  have rows: "map2 (broadcast_op (*)) a b = map Inr (map2 (map2 (*)) a b)"
    using assms
    by (intro nth_equalityI) (simp_all add: shape2_def broadcast_op_same)
  have "tensor_mul a b = collect (map2 (broadcast_op (*)) a b)"
    using assms by (simp add: tensor_mul_def shape2_def bshape_def expand_def)
  also have "\<dots> = collect (map Inr (map2 (map2 (*)) a b))"
    by (simp only: rows)
  also have "\<dots> = Inr (map2 (map2 (*)) a b)"
    by (rule collect_all_ok)
  finally show ?thesis .
qed

lemma beer_lambert_law_plain:
  assumes "shape2 B N coeffs" "shape2 B N distances"
  shows "beer_lambert_law coeffs distances None None slice_size_cm
           = Inr (map2 (\<lambda>cs ds. exp (- sum_list (map2 (*) cs (map (\<lambda>d. d * slice_size_cm / 2) ds))))
                    coeffs distances)"
proof -
  have sh: "shape2 B N (map (map (\<lambda>d. d * slice_size_cm / 2)) distances)"
    using assms(2) by (auto simp: shape2_def)
  have len: "length coeffs = length distances"
    using assms by (simp add: shape2_def)
  show ?thesis
    using len
    by (simp add: beer_lambert_law_def tensor_mul_same [OF assms(1) sh] zip_map2 map_zip_map2
          split_def)
qed

lemma weighted_sum_mono:
  assumes "length c1 = length ds" "length c2 = length ds"
    "\<forall>i < length ds. c1 ! i \<le> c2 ! i" "\<forall>d \<in> set ds. 0 \<le> (d :: real)"
  shows "sum_list (map2 (*) c1 ds) \<le> sum_list (map2 (*) c2 ds)"
proof -
  have "c1 ! i * ds ! i \<le> c2 ! i * ds ! i" if "i < length ds" for i
    using that assms(3,4) by (intro mult_right_mono) auto
  with assms(1,2) show ?thesis
    by (intro sum_list_mono2) auto
qed

lemma zero_weighted_sum:
  "\<forall>c \<in> set cs. c = (0 :: real) \<Longrightarrow> sum_list (map2 (*) cs ds) = 0"
proof (induction cs arbitrary: ds)
  case Nil
  show ?case by simp
next
  case (Cons c cs)
  then show ?case by (cases ds) simp_all
qed

lemma beer_lambert_law_zero:
  assumes "shape2 B N distances" "shape2 B N coeffs" "\<forall>row \<in> set coeffs. \<forall>c \<in> set row. c = 0"
  shows "beer_lambert_law coeffs distances None None slice_size_cm = Inr (replicate B 1)"
proof -
  let ?scaled = "\<lambda>ds. map (\<lambda>d. d * slice_size_cm / 2) ds"
  have zero: "sum_list (map2 (*) cs (?scaled ds)) = 0" if "\<forall>c \<in> set cs. c = 0" for cs ds
    using that by (rule zero_weighted_sum)
  have "map2 (\<lambda>cs ds. exp (- sum_list (map2 (*) cs (?scaled ds)))) coeffs distances
          = replicate B 1"
  proof (intro nth_equalityI)
    show "length (map2 (\<lambda>cs ds. exp (- sum_list (map2 (*) cs (?scaled ds)))) coeffs distances)
            = length (replicate B (1 :: real))"
      using assms by (simp add: shape2_def)
  next
    fix b assume "b < length (map2 (\<lambda>cs ds. exp (- sum_list (map2 (*) cs (?scaled ds)))) coeffs distances)"
    with assms have b: "b < B" "b < length coeffs" "b < length distances"
      by (simp_all add: shape2_def)
    with assms have "\<forall>c \<in> set (coeffs ! b). c = 0" by (meson nth_mem)
    from zero [OF this] b
    show "map2 (\<lambda>cs ds. exp (- sum_list (map2 (*) cs (?scaled ds)))) coeffs distances ! b
            = replicate B 1 ! b"
      by simp
  qed
  with assms show ?thesis
    using beer_lambert_law_plain [of B N coeffs distances slice_size_cm] by simp
qed

lemma beer_lambert_law_mono:
  assumes "shape2 B N distances" "shape2 B N c1" "shape2 B N c2" "0 \<le> slice_size_cm"
    "\<forall>row \<in> set distances. \<forall>d \<in> set row. 0 < d"
    "\<forall>b < B. \<forall>i < N. c1 ! b ! i \<le> c2 ! b ! i"
  shows "\<exists>T1 T2. beer_lambert_law c1 distances None None slice_size_cm = Inr T1 \<and>
               beer_lambert_law c2 distances None None slice_size_cm = Inr T2 \<and>
               length T1 = B \<and> length T2 = B \<and> (\<forall>b < B. T2 ! b \<le> T1 ! b)"
proof -
  let ?scaled = "\<lambda>ds. map (\<lambda>d. d * slice_size_cm / 2) ds"
  let ?T = "\<lambda>coeffs. map2 (\<lambda>cs ds. exp (- sum_list (map2 (*) cs (?scaled ds)))) coeffs distances"
  from assms have r1: "beer_lambert_law c1 distances None None slice_size_cm = Inr (?T c1)"
    using beer_lambert_law_plain [of B N c1 distances slice_size_cm] by simp
  from assms have r2: "beer_lambert_law c2 distances None None slice_size_cm = Inr (?T c2)"
    using beer_lambert_law_plain [of B N c2 distances slice_size_cm] by simp
  from assms have len: "length (?T c1) = B" "length (?T c2) = B" by (simp_all add: shape2_def)
  have mono: "?T c2 ! b \<le> ?T c1 ! b" if "b < B" for b
  proof -
    from that assms have rows: "length (c1 ! b) = N" "length (c2 ! b) = N"
        "length (distances ! b) = N"
      by (simp_all add: shape2_def)
    from that assms have "distances ! b \<in> set distances" by (simp add: shape2_def)
    with assms(5) have "\<forall>d \<in> set (distances ! b). 0 < d" by blast
    with assms(4) have nn: "\<forall>d \<in> set (?scaled (distances ! b)). 0 \<le> d" by auto
    from that assms(6) rows have le: "\<forall>i < length (?scaled (distances ! b)). c1 ! b ! i \<le> c2 ! b ! i"
      by simp
    from rows have "sum_list (map2 (*) (c1 ! b) (?scaled (distances ! b)))
            \<le> sum_list (map2 (*) (c2 ! b) (?scaled (distances ! b)))"
      by (intro weighted_sum_mono le nn) simp_all
    with that assms show ?thesis by (simp add: shape2_def)
  qed
  from r1 r2 len mono show ?thesis by blast
qed

text \<open>
  A negative slice size reverses the order: it is excluded below.
\<close>

lemma negative_slice_size_example:
  "beer_lambert_law [[0]] [[1]] None None (- 2) = Inr [1] \<and>
   beer_lambert_law [[1]] [[1]] None None (- 2) = Inr [exp 1]"
  by (simp add: beer_lambert_law_def tensor_mul_def broadcast_op_def bshape_def expand_def)

text \<open>
  Claim C9, as stated, fails: the code takes no absolute value, and a negative coefficient
  of larger magnitude gives a larger transmittance. With distance 1 and slice size 2 the
  coefficient 0 gives 1 and the coefficient \<open>-1\<close> gives \<open>exp 1\<close>.
\<close>

theorem negative_coefficient_counterexample:
  "beer_lambert_law [[0]] [[1]] None None 2 = Inr [1] \<and>
   beer_lambert_law [[- 1]] [[1]] None None 2 = Inr [exp 1] \<and>
   \<bar>0 :: real\<bar> \<le> \<bar>- 1\<bar> \<and> (1 :: real) < exp 1"
  by (simp add: beer_lambert_law_def tensor_mul_def broadcast_op_def bshape_def expand_def)

text \<open>
  Claim C9, as amended. For coefficients and distances of shape \<open>(B, N)\<close> and no \<open>(s, k)\<close>
  scaling, \<^verbatim>\<open>beer_lambert_law\<close> returns transmittance exactly 1 for every ray when all
  coefficients are 0, whatever the distances. For positive distances and a slice size
  that is not negative, the transmittance does not increase when the coefficients grow:
  if \<open>c1 \<le> c2\<close> element by element, every ray has \<open>T(c2) \<le> T(c1)\<close>; in particular, for
  coefficients that are not negative, it does not increase with their magnitude.
\<close>

theorem beer_lambert_law_transmittance:
  "(shape2 B N distances \<and> shape2 B N coeffs \<and> (\<forall>row \<in> set coeffs. \<forall>c \<in> set row. c = 0) \<longrightarrow>
      beer_lambert_law coeffs distances None None slice_size_cm = Inr (replicate B 1)) \<and>
   (shape2 B N distances \<and> shape2 B N c1 \<and> shape2 B N c2 \<and> 0 \<le> slice_size_cm \<and>
    (\<forall>row \<in> set distances. \<forall>d \<in> set row. 0 < d) \<and>
    (\<forall>b < B. \<forall>i < N. c1 ! b ! i \<le> c2 ! b ! i) \<longrightarrow>
      (\<exists>T1 T2. beer_lambert_law c1 distances None None slice_size_cm = Inr T1 \<and>
               beer_lambert_law c2 distances None None slice_size_cm = Inr T2 \<and>
               length T1 = B \<and> length T2 = B \<and> (\<forall>b < B. T2 ! b \<le> T1 ! b))) \<and>
   (shape2 B N distances \<and> shape2 B N c1 \<and> shape2 B N c2 \<and> 0 \<le> slice_size_cm \<and>
    (\<forall>row \<in> set distances. \<forall>d \<in> set row. 0 < d) \<and>
    (\<forall>b < B. \<forall>i < N. 0 \<le> c1 ! b ! i \<and> 0 \<le> c2 ! b ! i \<and> \<bar>c1 ! b ! i\<bar> \<le> \<bar>c2 ! b ! i\<bar>) \<longrightarrow>
      (\<exists>T1 T2. beer_lambert_law c1 distances None None slice_size_cm = Inr T1 \<and>
               beer_lambert_law c2 distances None None slice_size_cm = Inr T2 \<and>
               length T1 = B \<and> length T2 = B \<and> (\<forall>b < B. T2 ! b \<le> T1 ! b)))"
proof (intro conjI impI)
  assume "shape2 B N distances \<and> shape2 B N coeffs \<and>
          (\<forall>row \<in> set coeffs. \<forall>c \<in> set row. c = 0)"
  then show "beer_lambert_law coeffs distances None None slice_size_cm = Inr (replicate B 1)"
    by (intro beer_lambert_law_zero [of B N]) simp_all
next
  assume "shape2 B N distances \<and> shape2 B N c1 \<and> shape2 B N c2 \<and> 0 \<le> slice_size_cm \<and>
    (\<forall>row \<in> set distances. \<forall>d \<in> set row. 0 < d) \<and>
    (\<forall>b < B. \<forall>i < N. c1 ! b ! i \<le> c2 ! b ! i)"
  then show "\<exists>T1 T2. beer_lambert_law c1 distances None None slice_size_cm = Inr T1 \<and>
               beer_lambert_law c2 distances None None slice_size_cm = Inr T2 \<and>
               length T1 = B \<and> length T2 = B \<and> (\<forall>b < B. T2 ! b \<le> T1 ! b)"
    by (intro beer_lambert_law_mono [of B N]) simp_all
next
  assume h: "shape2 B N distances \<and> shape2 B N c1 \<and> shape2 B N c2 \<and> 0 \<le> slice_size_cm \<and>
    (\<forall>row \<in> set distances. \<forall>d \<in> set row. 0 < d) \<and>
    (\<forall>b < B. \<forall>i < N. 0 \<le> c1 ! b ! i \<and> 0 \<le> c2 ! b ! i \<and> \<bar>c1 ! b ! i\<bar> \<le> \<bar>c2 ! b ! i\<bar>)"
  then have "\<forall>b < B. \<forall>i < N. c1 ! b ! i \<le> c2 ! b ! i"
    by (metis abs_of_nonneg)
  with h show "\<exists>T1 T2. beer_lambert_law c1 distances None None slice_size_cm = Inr T1 \<and>
               beer_lambert_law c2 distances None None slice_size_cm = Inr T2 \<and>
               length T1 = B \<and> length T2 = B \<and> (\<forall>b < B. T2 ! b \<le> T1 ! b)"
    by (intro beer_lambert_law_mono [of B N]) simp_all
qed

theorem beer_lambert_law_transmittance_witness:
  "shape2 1 2 [[1, 2 :: real]] \<and> shape2 1 2 [[0, 0 :: real]] \<and> shape2 1 2 [[1, 1 :: real]] \<and>
   (0 :: real) \<le> 2 \<and>
   beer_lambert_law [[0, 0]] [[1, 2]] None None 2 = Inr [1] \<and>
   beer_lambert_law [[1, 1]] [[1, 2]] None None 2 = Inr [exp (- 3)] \<and>
   exp (- 3) \<le> (1 :: real)"
  using beer_lambert_law_transmittance [where B = 1 and N = 2 and distances = "[[1, 2]]"
      and coeffs = "[[0, 0]]" and ?c1.0 = "[[0, 0]]" and ?c2.0 = "[[1, 1]]"
      and slice_size_cm = 2]
  by (simp add: shape2_def beer_lambert_law_def tensor_mul_def broadcast_op_def bshape_def
        expand_def)

subsection \<open>The chunked query loop\<close>

lemma assign_slice_exact:
  assumes "length vals = hi - lo" "lo \<le> hi" "hi \<le> length cs"
  shows "assign_slice \<lparr>cells = cs, stores = w\<rparr> lo hi vals
           = Inr \<lparr>cells = take lo cs @ map Some vals @ drop hi cs, stores = w @ [lo..<hi]\<rparr>"
  using assms by (simp add: assign_slice_def Let_def min_def max_def)

lemma chunk_loop_fills:
  assumes "0 < chunk_size" "length cs = i * chunk_size + length xs"
  shows "chunk_loop (map f) chunk_size i (split_chunks chunk_size xs) \<lparr>cells = cs, stores = w\<rparr>
           = Inr \<lparr>cells = take (i * chunk_size) cs @ map (\<lambda>p. Some (f p)) xs,
                  stores = w @ [i * chunk_size ..< i * chunk_size + length xs]\<rparr>"
  using assms
proof (induction chunk_size xs arbitrary: i cs w rule: split_chunks.induct)
  case (1 n xs)
  show ?case
  proof (cases "length xs \<le> n")
    case True
    let ?lo = "i * n" and ?hi = "(i + 1) * n"
    have chunks: "split_chunks n xs = [xs]"
      using True by (simp add: split_chunks.simps)
    have "assign_slice \<lparr>cells = cs, stores = w\<rparr> ?lo ?hi (map f xs)
            = Inr \<lparr>cells = take ?lo cs @ map Some (map f xs), stores = w @ [?lo..<?lo + length xs]\<rparr>"
      using True "1.prems"
      by (auto simp: assign_slice_def Let_def min_def max_def add.commute)
    then show ?thesis
      by (simp add: chunks comp_def)
  next
    case False
    let ?lo = "i * n" and ?hi = "(i + 1) * n"
    let ?cs' = "take ?lo cs @ map Some (map f (take n xs)) @ drop ?hi cs"
    let ?w' = "w @ [?lo..<?hi]"
    have chunks: "split_chunks n xs = take n xs # split_chunks n (drop n xs)"
      using False "1.prems" by (subst split_chunks.simps) simp
    have step: "assign_slice \<lparr>cells = cs, stores = w\<rparr> ?lo ?hi (map f (take n xs))
            = Inr \<lparr>cells = ?cs', stores = ?w'\<rparr>"
      using False "1.prems" by (intro assign_slice_exact) simp_all
    have len': "length ?cs' = (i + 1) * n + length (drop n xs)"
      using False "1.prems" by simp
    have rest: "chunk_loop (map f) n (i + 1) (split_chunks n (drop n xs)) \<lparr>cells = ?cs', stores = ?w'\<rparr>
            = Inr \<lparr>cells = take ((i + 1) * n) ?cs' @ map (\<lambda>p. Some (f p)) (drop n xs),
                   stores = ?w' @ [(i + 1) * n ..< (i + 1) * n + length (drop n xs)]\<rparr>"
      using False "1.prems" by (intro "1.IH" len') simp_all
    have pre: "take ((i + 1) * n) ?cs' = take ?lo cs @ map (\<lambda>p. Some (f p)) (take n xs)"
      using False "1.prems" by (simp add: comp_def)
    have cells: "take ?lo cs @ map (\<lambda>p. Some (f p)) (take n xs) @ map (\<lambda>p. Some (f p)) (drop n xs)
                   = take ?lo cs @ map (\<lambda>p. Some (f p)) xs"
      by (simp flip: map_append)
    have idx: "[?lo..<?hi] @ [(i + 1) * n ..< (i + 1) * n + length (drop n xs)]
                 = [?lo ..< ?lo + length xs]"
    proof -
      have e: "?hi + length (drop n xs) = ?lo + length xs"
        using False by simp
      have "[?lo..<?hi] @ [?hi ..< ?hi + length (drop n xs)] = [?lo ..< ?hi + length (drop n xs)]"
        by (rule upt_add_eq_append [symmetric]) simp
      also have "\<dots> = [?lo ..< ?lo + length xs]"
        by (simp only: e)
      finally show ?thesis .
    qed
    have "chunk_loop (map f) n i (split_chunks n xs) \<lparr>cells = cs, stores = w\<rparr>
            = chunk_loop (map f) n (i + 1) (split_chunks n (drop n xs)) \<lparr>cells = ?cs', stores = ?w'\<rparr>"
      by (simp only: chunks chunk_loop.simps Let_def step sum.case)
    also note rest
    also have "Inr \<lparr>cells = take ((i + 1) * n) ?cs' @ map (\<lambda>p. Some (f p)) (drop n xs),
                   stores = ?w' @ [(i + 1) * n ..< (i + 1) * n + length (drop n xs)]\<rparr>
            = (Inr \<lparr>cells = take ?lo cs @ map (\<lambda>p. Some (f p)) xs,
                   stores = w @ [?lo ..< ?lo + length xs]\<rparr> :: error + buffer)"
      by (simp only: pre append_assoc cells idx)
    finally show ?thesis .
  qed
qed

text \<open>
  Claim C10. For every chunk size \<open>\<ge> 1\<close> and a model that evaluates a field \<open>f\<close> point by
  point, the loop stores to the indices \<open>0, \<dots>, n - 1\<close> of the buffer, each exactly once
  (also when \<open>n\<close> is not a multiple of the chunk size), and the buffer then holds the
  outputs of the model on all coordinates in one call.
\<close>

theorem query_loop_fills_once:
  "1 \<le> chunk_size \<longrightarrow>
     query_loop (map f) chunk_size coords
       = Inr \<lparr>cells = map Some (map f coords), stores = [0..<length coords]\<rparr>"
proof
  assume "1 \<le> chunk_size"
  then have pos: "0 < chunk_size" by simp
  from chunk_loop_fills [OF pos, of "replicate (length coords) None" 0 coords f "[]"]
  show "query_loop (map f) chunk_size coords
       = Inr \<lparr>cells = map Some (map f coords), stores = [0..<length coords]\<rparr>"
    using pos by (simp add: query_loop_def torch_split_def comp_def)
qed

theorem query_loop_fills_once_witness:
  "(1 :: nat) \<le> 2 \<and>
   query_loop (map example_field) 2 [(0, 0, 0), (1, 0, 0), (0, 1, 1)]
     = Inr \<lparr>cells = [Some 0, Some 1, Some 2], stores = [0, 1, 2]\<rparr>"
  using query_loop_fills_once [of 2 example_field "[(0, 0, 0), (1, 0, 0), (0, 1, 1)]"]
  by (simp add: example_field_def upt_rec)

subsection \<open>Hounsfield calibration\<close>

lemma hounsfield_distinct:
  "mu_air < mu_water \<Longrightarrow>
     hounsfield asf mu_water mu_air v
       = Some (max (1000 * (scaled_output asf v - mu_water) / (mu_water - mu_air)) (- 1024))"
  by (simp add: hounsfield_def Let_def)

lemma raw_at_threshold:
  fixes sv mu_water mu_air :: real
  assumes "mu_air < mu_water"
  shows "1000 * (sv - mu_water) / (mu_water - mu_air) \<le> - 1024
           \<longleftrightarrow> sv \<le> mu_water - 128 / 125 * (mu_water - mu_air)"
proof -
  from assms have pos: "0 < mu_water - mu_air" by simp
  have "1000 * (sv - mu_water) / (mu_water - mu_air) \<le> - 1024
          \<longleftrightarrow> 1000 * (sv - mu_water) \<le> - 1024 * (mu_water - mu_air)"
    using pos by (simp only: pos_divide_le_eq)
  also have "\<dots> \<longleftrightarrow> sv \<le> mu_water - 128 / 125 * (mu_water - mu_air)"
    by argo
  finally show ?thesis .
qed

text \<open>
  Claim C2, as stated, fails: with \<open>MU_WATER = 1/5\<close> and \<open>MU_AIR = 0\<close> the input 0, equal to
  \<open>MU_AIR\<close>, maps to \<open>-1000\<close>, which the clamp at \<open>-1024\<close> leaves untouched.
\<close>

theorem air_not_clamped_counterexample:
  "hounsfield None (1 / 5) 0 0 = Some (- 1000) \<and>
   hounsfield None (1 / 5) 0 0 \<noteq> Some (- 1024) \<and>
   convert_to_hounsfield None (1 / 5) 0 [Some 0] = [Some (- 1000)]"
  by (simp add: convert_to_hounsfield_def hounsfield_def scaled_output_def)

text \<open>
  Claim C2, as amended. With \<open>MU_AIR < MU_WATER\<close>: a (scaled) model output equal to
  \<open>MU_WATER\<close> maps to exactly 0 and one equal to \<open>MU_AIR\<close> to exactly \<open>-1000\<close>. The output is
  clamped at \<open>-1024\<close>: a (scaled) output at or below
  \<open>MU_WATER - 1.024 * (MU_WATER - MU_AIR)\<close> maps to exactly \<open>-1024\<close>, one at or above it to
  \<open>1000 * (v - MU_WATER) / (MU_WATER - MU_AIR)\<close>, so that no output is below \<open>-1024\<close>. The
  calibrated buffer holds these values cell by cell.
\<close>

theorem hounsfield_calibration:
  "mu_air < mu_water \<longrightarrow>
     (scaled_output asf v = mu_water \<longrightarrow> hounsfield asf mu_water mu_air v = Some 0) \<and>
     (scaled_output asf v = mu_air \<longrightarrow> hounsfield asf mu_water mu_air v = Some (- 1000)) \<and>
     (scaled_output asf v \<le> mu_water - 128 / 125 * (mu_water - mu_air) \<longrightarrow>
        hounsfield asf mu_water mu_air v = Some (- 1024)) \<and>
     (mu_water - 128 / 125 * (mu_water - mu_air) \<le> scaled_output asf v \<longrightarrow>
        hounsfield asf mu_water mu_air v
          = Some (1000 * (scaled_output asf v - mu_water) / (mu_water - mu_air))) \<and>
     (\<exists>h. hounsfield asf mu_water mu_air v = Some h \<and> - 1024 \<le> h) \<and>
     length (convert_to_hounsfield asf mu_water mu_air output) = length output \<and>
     (\<forall>i < length output. \<forall>u. output ! i = Some u \<longrightarrow>
        convert_to_hounsfield asf mu_water mu_air output ! i = hounsfield asf mu_water mu_air u)"
proof (intro impI)
  assume lt: "mu_air < mu_water"
  let ?sv = "scaled_output asf v"
  let ?raw = "1000 * (?sv - mu_water) / (mu_water - mu_air)"
  note h = hounsfield_distinct [OF lt, of asf v]
  have water: "hounsfield asf mu_water mu_air v = Some 0" if "?sv = mu_water"
    using that by (simp add: h)
  have air: "hounsfield asf mu_water mu_air v = Some (- 1000)" if "?sv = mu_air"
  proof -
    from lt that have "?raw = - 1000" by (simp add: field_simps)
    then show ?thesis by (simp add: h)
  qed
  have low: "hounsfield asf mu_water mu_air v = Some (- 1024)"
    if "?sv \<le> mu_water - 128 / 125 * (mu_water - mu_air)"
  proof -
    from that have "?raw \<le> - 1024" by (simp only: raw_at_threshold [OF lt])
    then show ?thesis by (simp add: h max_def)
  qed
  have high: "hounsfield asf mu_water mu_air v = Some ?raw"
    if "mu_water - 128 / 125 * (mu_water - mu_air) \<le> ?sv"
  proof -
    have "- 1024 \<le> ?raw"
    proof (cases "?raw \<le> - 1024")
      case True
      then have "?sv \<le> mu_water - 128 / 125 * (mu_water - mu_air)"
        by (simp only: raw_at_threshold [OF lt])
      with that have "?sv = mu_water - 128 / 125 * (mu_water - mu_air)" by simp
      with lt have "?raw = - 1024" by (simp add: field_simps)
      then show ?thesis by simp
    next
      case False
      then show ?thesis by simp
    qed
    then show ?thesis by (simp add: h max_def)
  qed
  have floor: "\<exists>h. hounsfield asf mu_water mu_air v = Some h \<and> - 1024 \<le> h"
    by (simp add: h)
  have len: "length (convert_to_hounsfield asf mu_water mu_air output) = length output"
    by (simp add: convert_to_hounsfield_def)
  have cell: "\<forall>i < length output. \<forall>u. output ! i = Some u \<longrightarrow>
        convert_to_hounsfield asf mu_water mu_air output ! i = hounsfield asf mu_water mu_air u"
    by (simp add: convert_to_hounsfield_def)
  from water air low high floor len cell
  show "(scaled_output asf v = mu_water \<longrightarrow> hounsfield asf mu_water mu_air v = Some 0) \<and>
     (scaled_output asf v = mu_air \<longrightarrow> hounsfield asf mu_water mu_air v = Some (- 1000)) \<and>
     (scaled_output asf v \<le> mu_water - 128 / 125 * (mu_water - mu_air) \<longrightarrow>
        hounsfield asf mu_water mu_air v = Some (- 1024)) \<and>
     (mu_water - 128 / 125 * (mu_water - mu_air) \<le> scaled_output asf v \<longrightarrow>
        hounsfield asf mu_water mu_air v
          = Some (1000 * (scaled_output asf v - mu_water) / (mu_water - mu_air))) \<and>
     (\<exists>h. hounsfield asf mu_water mu_air v = Some h \<and> - 1024 \<le> h) \<and>
     length (convert_to_hounsfield asf mu_water mu_air output) = length output \<and>
     (\<forall>i < length output. \<forall>u. output ! i = Some u \<longrightarrow>
        convert_to_hounsfield asf mu_water mu_air output ! i = hounsfield asf mu_water mu_air u)"
    by blast
qed

theorem hounsfield_calibration_witness:
  "(0 :: real) < 1 / 5 \<and>
   hounsfield None (1 / 5) 0 (1 / 5) = Some 0 \<and>
   hounsfield None (1 / 5) 0 0 = Some (- 1000) \<and>
   hounsfield None (1 / 5) 0 (- 1) = Some (- 1024) \<and>
   hounsfield None (1 / 5) 0 (1 / 10) = Some (- 500) \<and>
   convert_to_hounsfield None (1 / 5) 0 [Some (1 / 5), Some 0, Some (- 1), None]
     = [Some 0, Some (- 1000), Some (- 1024), None]"
  using hounsfield_calibration [of 0 "1 / 5" None "1 / 5"
      "[Some (1 / 5), Some 0, Some (- 1), None]"]
    hounsfield_calibration [of 0 "1 / 5" None 0 "[]"]
    hounsfield_calibration [of 0 "1 / 5" None "- 1" "[]"]
    hounsfield_calibration [of 0 "1 / 5" None "1 / 10" "[]"]
  by (simp add: hounsfield_def scaled_output_def convert_to_hounsfield_def)

subsection \<open>Volume sizing\<close>

text \<open>
  With a target image size the voxel spacing is chosen so that size times spacing is the
  original extent in every coordinate.
\<close>

lemma volume_sizing_count_preserves_extent:
  assumes "conf_voxel_spacing conf = None" "conf_image_size conf = Some new_size"
    "xray_metadata_size conf = [w, h]" "xray_metadata_spacing conf = [sw, sh]"
    "new_size = [n0, n1, n2]" "n0 \<noteq> 0" "n1 \<noteq> 0" "n2 \<noteq> 0"
  shows "\<exists>voxel_spacing. volume_sizing conf = Inr (new_size, voxel_spacing) \<and>
           map2 (\<lambda>n s. real_of_int n * s) new_size voxel_spacing
             = map2 (*) [w, w, h] [sw, sw, sh]"
  using assms
  by (simp add: volume_sizing_def bind_err_def prepend_first_def np_mul_def np_div_def
        broadcast_op_def bshape_def expand_def)

text \<open>
  Claim C3. With a target voxel spacing the code computes
  \<open>original_size / original_spacing * new_spacing\<close>: for size 256, spacing 1 and target
  spacing 2 the image size is 512, not 128, and the extent \<open>512 * 2\<close> is not \<open>256 * 1\<close>.
\<close>

theorem volume_sizing_spacing_example:
  "volume_sizing bug_config = Inr ([512, 512, 512], [2, 2, 2])"
  by (simp add: volume_sizing_def bug_config_def bind_err_def prepend_first_def np_mul_def
        np_div_def broadcast_op_def bshape_def expand_def astype_int_def)

text \<open>
  Claim C8, as stated, fails when both targets are supplied: the sizing succeeds with
  the target spacing and the volume is computed.
\<close>

theorem both_targets_counterexample:
  "volume_sizing both_config = Inr ([2, 2, 2], [1, 1, 1]) \<and>
   generate_ct both_config (1 / 5) 0
     = Inr ([[[Some 0, Some 0], [Some 0, Some 0]], [[Some 0, Some 0], [Some 0, Some 0]]],
            [1, 1, 1])"
proof -
  have sizing: "volume_sizing both_config = Inr ([2, 2, 2], [1, 1, 1])"
    by (simp add: volume_sizing_def both_config_def bind_err_def prepend_first_def np_mul_def
          np_div_def broadcast_op_def bshape_def expand_def astype_int_def)
  have coords: "grid_coords (linspace (- 1) 1 2) (linspace (- 1) 1 2) (linspace (- 1) 1 2)
      = [(- 1, - 1, - 1), (- 1, - 1, 1), (1, - 1, - 1), (1, - 1, 1),
         (- 1, 1, - 1), (- 1, 1, 1), (1, 1, - 1), (1, 1, 1)]"
    by (simp add: grid_coords_def linspace_def upt_rec)
  have loop: "query_loop water_model 3
        [(- 1, - 1, - 1), (- 1, - 1, 1), (1, - 1, - 1), (1, - 1, 1),
         (- 1, 1, - 1), (- 1, 1, 1), (1, 1, - 1), (1, 1, 1)]
      = Inr \<lparr>cells = replicate 8 (Some (1 / 5)), stores = [0, 1, 2, 3, 4, 5, 6, 7]\<rparr>"
    by (simp add: query_loop_def torch_split_def split_chunks.simps water_model_def
          assign_slice_def Let_def upt_rec numeral_eq_Suc)
  have conv: "convert_to_hounsfield None (1 / 5) 0 (replicate 8 (Some (1 / 5)))
      = replicate 8 (Some 0)"
    by (simp add: convert_to_hounsfield_def hounsfield_def scaled_output_def)
  have shape: "permute_201 2 2 2 (reshape3 2 2 2 (replicate 8 (Some (0 :: real))))
      = [[[Some 0, Some 0], [Some 0, Some 0]], [[Some 0, Some 0], [Some 0, Some 0]]]"
    by (simp add: permute_201_def reshape3_def upt_rec numeral_eq_Suc)
  have run: "run_inference water_model [2, 2, 2] 3 None (1 / 5) 0
      = Inr [[[Some 0, Some 0], [Some 0, Some 0]], [[Some 0, Some 0], [Some 0, Some 0]]]"
    by (simp add: run_inference_def axis_linspace_def bind_err_def coords loop conv shape)
  have "generate_ct both_config (1 / 5) 0
     = Inr ([[[Some 0, Some 0], [Some 0, Some 0]], [[Some 0, Some 0], [Some 0, Some 0]]],
            [1, 1, 1])"
    by (simp add: generate_ct_def sizing bind_err_def run) (simp add: both_config_def run bind_err_def)
  with sizing show ?thesis by simp
qed

text \<open>
  Claim C8, as amended. With neither target supplied \<^verbatim>\<open>generate_ct\<close> fails in the
  sizing step, before the model is queried (with \<^verbatim>\<open>UnboundLocalError\<close> when the
  metadata lists are not empty). With a target voxel spacing supplied, the target image
  size is ignored: the result is the one without it.
\<close>

theorem generate_ct_target_choice:
  "(conf_voxel_spacing conf = None \<and> conf_image_size conf = None \<longrightarrow>
      (\<exists>e. volume_sizing conf = Inl e \<and> generate_ct conf mu_water mu_air = Inl e)) \<and>
   (conf_voxel_spacing conf = None \<and> conf_image_size conf = None \<and>
    xray_metadata_size conf \<noteq> [] \<and> xray_metadata_spacing conf \<noteq> [] \<longrightarrow>
      generate_ct conf mu_water mu_air = Inl UnboundLocalError) \<and>
   (conf_voxel_spacing conf \<noteq> None \<longrightarrow>
      generate_ct conf mu_water mu_air
        = generate_ct (conf\<lparr>conf_image_size := None\<rparr>) mu_water mu_air)"
proof (intro conjI impI)
  assume h: "conf_voxel_spacing conf = None \<and> conf_image_size conf = None"
  then have "\<exists>e. volume_sizing conf = Inl e"
    by (simp add: volume_sizing_def bind_err_def split: sum.splits)
  then show "\<exists>e. volume_sizing conf = Inl e \<and> generate_ct conf mu_water mu_air = Inl e"
    by (auto simp: generate_ct_def bind_err_def)
next
  assume "conf_voxel_spacing conf = None \<and> conf_image_size conf = None \<and>
    xray_metadata_size conf \<noteq> [] \<and> xray_metadata_spacing conf \<noteq> []"
  then have "volume_sizing conf = Inl UnboundLocalError"
    by (simp add: volume_sizing_def bind_err_def prepend_first_def split: list.splits)
  then show "generate_ct conf mu_water mu_air = Inl UnboundLocalError"
    by (simp add: generate_ct_def bind_err_def)
next
  assume "conf_voxel_spacing conf \<noteq> None"
  then have "volume_sizing (conf\<lparr>conf_image_size := None\<rparr>) = volume_sizing conf"
    by (auto simp: volume_sizing_def)
  then show "generate_ct conf mu_water mu_air
        = generate_ct (conf\<lparr>conf_image_size := None\<rparr>) mu_water mu_air"
    by (simp add: generate_ct_def cong: option.case_cong)
qed

theorem generate_ct_target_choice_witness:
  "conf_voxel_spacing neither_config = None \<and> conf_image_size neither_config = None \<and>
   xray_metadata_size neither_config \<noteq> [] \<and> xray_metadata_spacing neither_config \<noteq> [] \<and>
   volume_sizing neither_config = Inl UnboundLocalError \<and>
   generate_ct neither_config (1 / 5) 0 = Inl UnboundLocalError \<and>
   conf_voxel_spacing both_config \<noteq> None \<and>
   generate_ct both_config (1 / 5) 0
     = generate_ct (both_config\<lparr>conf_image_size := None\<rparr>) (1 / 5) 0"
  using generate_ct_target_choice [of neither_config "1 / 5" 0]
    generate_ct_target_choice [of both_config "1 / 5" 0]
  by (auto simp: neither_config_def both_config_def)

end
